theory Spec2Isabelle
  imports Complex_Main "HOL-Library.Word"
begin

unbundle bit_operations_syntax

chapter \<open>The model\<close>

section \<open>JavaScript strings, bytes and errors\<close>

text \<open>
  A JavaScript string is a sequence of UTF-16 code units; a \<open>Uint8Array\<close> is a sequence
  of bytes. ASCII literals of the source are written with \<open>js\<close>; other characters are
  given by their code units.
\<close>

type_synonym jschar = "16 word"
type_synonym jsstring = "jschar list"
type_synonym byte = "8 word"

definition js :: "string \<Rightarrow> jsstring" where
  "js s = map (\<lambda>c. of_nat (of_char c)) s"

text \<open>The exceptions the modelled code can raise or catch. \<open>LibraryError\<close> is whatever
  the compression library throws.\<close>

datatype js_error = RangeError | URIError | InvalidCharacterError | TypeError | LibraryError

text \<open>What \<open>await invoke(...)\<close> gives: the result string, or a rejection. \<open>err.message\<close>
  of the rejection is a string, or \<open>undefined\<close>, or the rejection is \<open>null\<close> or
  \<open>undefined\<close> itself and reading \<open>err.message\<close> throws.\<close>

datatype rejection = Reject_nullish | Reject_message jsstring | Reject_plain

datatype 'a promise = Rejected rejection | Resolved 'a

text \<open>\<open>s.charAt(i)\<close>: the one-character string at index \<open>i\<close>, the empty string when
  \<open>i\<close> is negative or beyond the end.\<close>

definition charAt :: "jsstring \<Rightarrow> int \<Rightarrow> jsstring" where
  "charAt s i = (if 0 \<le> i \<and> i < int (length s) then [s ! nat i] else [])"

text \<open>\<open>s.charCodeAt(i)\<close>: the code unit at index \<open>i\<close>. Out of range JavaScript gives
  \<open>NaN\<close>, which the bitwise operators of \<open>append3bytes\<close> read as 0.\<close>

definition charCodeAt :: "jsstring \<Rightarrow> nat \<Rightarrow> int" where
  "charCodeAt s i = (if i < length s then uint (s ! i) else 0)"

text \<open>\<open>String.fromCharCode(...bytes)\<close>: one code unit per byte.\<close>

definition fromCharCode :: "byte list \<Rightarrow> jsstring" where
  "fromCharCode bs = map ucast bs"

text \<open>\<open>s.trim()\<close>: white space and line terminators removed at both ends.\<close>

definition is_js_space :: "jschar \<Rightarrow> bool" where
  "is_js_space c =
     (c \<in> {0x0009, 0x000A, 0x000B, 0x000C, 0x000D, 0x0020, 0x00A0, 0x1680, 0x2028, 0x2029,
            0x202F, 0x205F, 0x3000, 0xFEFF} \<or> (0x2000 \<le> c \<and> c \<le> 0x200A))"

definition trim :: "jsstring \<Rightarrow> jsstring" where
  "trim s = rev (dropWhile is_js_space (rev (dropWhile is_js_space s)))"

subsection \<open>UTF-16 code points and UTF-8\<close>

definition is_surrogate :: "jschar \<Rightarrow> bool" where
  "is_surrogate c = (0xD800 \<le> c \<and> c \<le> 0xDFFF)"

definition is_high_surrogate :: "jschar \<Rightarrow> bool" where
  "is_high_surrogate c = (0xD800 \<le> c \<and> c \<le> 0xDBFF)"

definition is_low_surrogate :: "jschar \<Rightarrow> bool" where
  "is_low_surrogate c = (0xDC00 \<le> c \<and> c \<le> 0xDFFF)"

text \<open>The code points of a string, left to right. A surrogate pair is one code point; a
  surrogate without its partner is \<open>None\<close>.\<close>

fun code_points :: "jsstring \<Rightarrow> nat option list" where
  "code_points [] = []"
| "code_points [c] = [if is_surrogate c then None else Some (unat c)]"
| "code_points (c # d # rest) =
     (if is_high_surrogate c \<and> is_low_surrogate d
      then Some (0x10000 + (unat c - 0xD800) * 0x400 + (unat d - 0xDC00)) # code_points rest
      else (if is_surrogate c then None else Some (unat c)) # code_points (d # rest))"

definition well_formed :: "jsstring \<Rightarrow> bool" where
  "well_formed s = list_all (\<lambda>cp. cp \<noteq> None) (code_points s)"

definition utf8 :: "nat \<Rightarrow> byte list" where
  "utf8 cp =
     (if cp < 0x80 then [of_nat cp]
      else if cp < 0x800 then [of_nat (0xC0 + cp div 0x40), of_nat (0x80 + cp mod 0x40)]
      else if cp < 0x10000 then
        [of_nat (0xE0 + cp div 0x1000), of_nat (0x80 + cp div 0x40 mod 0x40),
         of_nat (0x80 + cp mod 0x40)]
      else
        [of_nat (0xF0 + cp div 0x40000), of_nat (0x80 + cp div 0x1000 mod 0x40),
         of_nat (0x80 + cp div 0x40 mod 0x40), of_nat (0x80 + cp mod 0x40)])"

text \<open>\<open>new TextEncoder().encode(s)\<close>: the UTF-8 bytes of \<open>s\<close>; a lone surrogate is
  encoded as U+FFFD. It never throws.\<close>

definition TextEncoder_encode :: "jsstring \<Rightarrow> byte list" where
  "TextEncoder_encode s =
     concat (map (\<lambda>cp. utf8 (case cp of None \<Rightarrow> 0xFFFD | Some n \<Rightarrow> n)) (code_points s))"

subsection \<open>\<open>encodeURIComponent\<close>, \<open>unescape\<close> and \<open>btoa\<close>\<close>

definition uri_unreserved :: jsstring where
  "uri_unreserved =
     js ''ABCDEFGHIJKLMNOPQRSTUVWXYZabcdefghijklmnopqrstuvwxyz0123456789-_.!~*'' @ [0x27] @ js ''()''"

definition hex_digits :: jsstring where
  "hex_digits = js ''0123456789ABCDEF''"

definition percent_byte :: "byte \<Rightarrow> jsstring" where
  "percent_byte b = [0x25, hex_digits ! (unat b div 16), hex_digits ! (unat b mod 16)]"

definition encode_code_point :: "nat \<Rightarrow> jsstring" where
  "encode_code_point cp =
     (if cp < 0x80 \<and> of_nat cp \<in> set uri_unreserved then [of_nat cp]
      else concat (map percent_byte (utf8 cp)))"

fun encode_code_points :: "nat option list \<Rightarrow> js_error + jsstring" where
  "encode_code_points [] = Inr []"
| "encode_code_points (None # rest) = Inl URIError"
| "encode_code_points (Some cp # rest) =
     (case encode_code_points rest of
        Inl e \<Rightarrow> Inl e
      | Inr r \<Rightarrow> Inr (encode_code_point cp @ r))"

text \<open>\<open>encodeURIComponent(s)\<close>: every code point outside the unreserved set becomes the
  \<open>%XX\<close> escapes of its UTF-8 bytes; a lone surrogate throws \<open>URIError\<close>.\<close>

definition encodeURIComponent :: "jsstring \<Rightarrow> js_error + jsstring" where
  "encodeURIComponent s = encode_code_points (code_points s)"

definition hex_value :: "jschar \<Rightarrow> nat option" where
  "hex_value c =
     (if 0x30 \<le> c \<and> c \<le> 0x39 then Some (unat c - 0x30)
      else if 0x41 \<le> c \<and> c \<le> 0x46 then Some (unat c - 0x41 + 10)
      else if 0x61 \<le> c \<and> c \<le> 0x66 then Some (unat c - 0x61 + 10)
      else None)"

definition hex2 :: "jsstring \<Rightarrow> nat option" where
  "hex2 s =
     (case map hex_value (take 2 s) of
        [Some a, Some b] \<Rightarrow> Some (a * 16 + b)
      | _ \<Rightarrow> None)"

definition hex4 :: "jsstring \<Rightarrow> nat option" where
  "hex4 s =
     (case map hex_value (take 4 s) of
        [Some a, Some b, Some c, Some d] \<Rightarrow> Some (((a * 16 + b) * 16 + c) * 16 + d)
      | _ \<Rightarrow> None)"

text \<open>\<open>unescape(s)\<close>: \<open>%uXXXX\<close> and \<open>%XX\<close> become the code unit they name; every other
  character stays.\<close>

function unescape :: "jsstring \<Rightarrow> jsstring" where
  "unescape [] = []"
| "unescape (c # rest) =
     (case (if c = 0x25 \<and> take 1 rest = [0x75] then hex4 (drop 1 rest) else None) of
        Some v \<Rightarrow> of_nat v # unescape (drop 5 rest)
      | None \<Rightarrow>
          (case (if c = 0x25 then hex2 rest else None) of
             Some v \<Rightarrow> of_nat v # unescape (drop 2 rest)
           | None \<Rightarrow> c # unescape rest))"
  by pat_completeness auto
termination
  by (relation "measure length") auto

definition base64_chars :: jsstring where
  "base64_chars = js ''ABCDEFGHIJKLMNOPQRSTUVWXYZabcdefghijklmnopqrstuvwxyz0123456789+/''"

fun btoa_groups :: "nat list \<Rightarrow> jsstring" where
  "btoa_groups [] = []"
| "btoa_groups [a] =
     [base64_chars ! (a div 4), base64_chars ! (a mod 4 * 16), 0x3D, 0x3D]"
| "btoa_groups [a, b] =
     [base64_chars ! (a div 4), base64_chars ! (a mod 4 * 16 + b div 16),
      base64_chars ! (b mod 16 * 4), 0x3D]"
| "btoa_groups (a # b # c # rest) =
     [base64_chars ! (a div 4), base64_chars ! (a mod 4 * 16 + b div 16),
      base64_chars ! (b mod 16 * 4 + c div 64), base64_chars ! (c mod 64)] @ btoa_groups rest"

text \<open>\<open>btoa(s)\<close>: the standard base64, padded with \<open>=\<close>, of a string of code units up
  to 255; any larger code unit throws.\<close>

definition btoa :: "jsstring \<Rightarrow> js_error + jsstring" where
  "btoa s =
     (if list_all (\<lambda>c. c \<le> 0xFF) s then Inr (btoa_groups (map unat s))
      else Inl InvalidCharacterError)"

section \<open>The diagram encoder (views/DesignStudio.vue)\<close>

definition chars :: jsstring where
  "chars = js ''0123456789ABCDEFGHIJKLMNOPQRSTUVWXYZabcdefghijklmnopqrstuvwxyz-_''"

text \<open>
  \<open>append3bytes\<close>. The arguments are 32-bit integers; on those \<open>>>\<close> is \<open>drop_bit\<close>,
  \<open>&\<close> and \<open>|\<close> are \<open>AND\<close> and \<open>OR\<close> of two's complement, and the two left shifts
  cannot overflow (their operands are at most 3 and 15).
\<close>

definition append3bytes :: "int \<Rightarrow> int \<Rightarrow> int \<Rightarrow> jsstring" where
  "append3bytes b1 b2 b3 =
     (let c1 = drop_bit 2 b1;
          c2 = push_bit 4 (b1 AND 0x3) OR drop_bit 4 b2;
          c3 = push_bit 2 (b2 AND 0xF) OR drop_bit 6 b3;
          c4 = b3 AND 0x3F
      in charAt chars c1 @ charAt chars c2 @ charAt chars c3 @ charAt chars c4)"

text \<open>The loop of \<open>encode64\<close>: \<open>for (let i = 0; i < data.length; i += 3)\<close>, with the
  accumulated result \<open>r\<close>.\<close>

function encode64_loop :: "jsstring \<Rightarrow> nat \<Rightarrow> jsstring \<Rightarrow> jsstring" where
  "encode64_loop data i r =
     (if i < length data then
        (if i + 2 = length data then
           encode64_loop data (i + 3)
             (r @ append3bytes (charCodeAt data i) (charCodeAt data (i + 1)) 0)
         else if i + 1 = length data then
           encode64_loop data (i + 3) (r @ append3bytes (charCodeAt data i) 0 0)
         else
           encode64_loop data (i + 3)
             (r @ append3bytes (charCodeAt data i) (charCodeAt data (i + 1))
                    (charCodeAt data (i + 2))))
      else r)"
  by pat_completeness auto
termination
  by (relation "measure (\<lambda>(data, i, r). length data - i)") auto

declare encode64_loop.simps [simp del]

definition encode64 :: "jsstring \<Rightarrow> jsstring" where
  "encode64 data = encode64_loop data 0 []"

text \<open>The same loop by structural recursion on the remaining characters; the proofs go
  through it (\<open>encode64_groups\<close> below).\<close>

fun encode_groups :: "jsstring \<Rightarrow> jsstring" where
  "encode_groups [] = []"
| "encode_groups [a] = append3bytes (uint a) 0 0"
| "encode_groups [a, b] = append3bytes (uint a) (uint b) 0"
| "encode_groups (a # b # c # rest) =
     append3bytes (uint a) (uint b) (uint c) @ encode_groups rest"

text \<open>
  The imported compression library, as the code sees it: its entry points take the options'
  \<open>level\<close> and the data, and return the compressed bytes or throw (\<open>None\<close>).
  \<open>deflate\<close> is the entry point the encoder calls; \<open>deflateRaw\<close> is the library's
  entry point for a stream without header and checksum. The JavaScript engine accepts an
  argument list up to \<open>max_arguments\<close>; a longer spread throws \<open>RangeError\<close>.
\<close>

record pako =
  deflate :: "nat \<Rightarrow> byte list \<Rightarrow> byte list option"
  deflateRaw :: "nat \<Rightarrow> byte list \<Rightarrow> byte list option"

record runtime =
  pako_lib :: pako
  max_arguments :: nat

text \<open>\<open>pako.deflate(new TextEncoder().encode(text), { level: 9 })\<close>\<close>

definition compress_step :: "runtime \<Rightarrow> jsstring \<Rightarrow> byte list option" where
  "compress_step rt s = deflate (pako_lib rt) 9 (TextEncoder_encode s)"

text \<open>The \<open>try\<close> block of \<open>encodePlantUML\<close>.\<close>

definition try_block :: "runtime \<Rightarrow> jsstring \<Rightarrow> js_error + jsstring" where
  "try_block rt s =
     (case compress_step rt s of
        None \<Rightarrow> Inl LibraryError
      | Some compressed \<Rightarrow>
          if max_arguments rt < length compressed then Inl RangeError
          else Inr (encode64 (fromCharCode compressed)))"

text \<open>The \<open>catch\<close> block: \<open>btoa(unescape(encodeURIComponent(text)))\<close>.\<close>

definition catch_block :: "jsstring \<Rightarrow> js_error + jsstring" where
  "catch_block s =
     (case encodeURIComponent s of
        Inl e \<Rightarrow> Inl e
      | Inr escaped \<Rightarrow> btoa (unescape escaped))"

definition encodePlantUML :: "runtime \<Rightarrow> jsstring \<Rightarrow> js_error + jsstring" where
  "encodePlantUML rt s =
     (case try_block rt s of
        Inr token \<Rightarrow> Inr token
      | Inl e \<Rightarrow> catch_block s)"

subsection \<open>The custom base64 as the specification words it\<close>

text \<open>Groups of three bytes, the last one padded with zero bytes; the four 6-bit values of
  a group; each value mapped through the alphabet.\<close>

fun groups3 :: "byte list \<Rightarrow> (byte \<times> byte \<times> byte) list" where
  "groups3 [] = []"
| "groups3 [a] = [(a, 0, 0)]"
| "groups3 [a, b] = [(a, b, 0)]"
| "groups3 (a # b # c # rest) = (a, b, c) # groups3 rest"

fun sextets :: "byte \<times> byte \<times> byte \<Rightarrow> int list" where
  "sextets (byte1, byte2, byte3) =
     [drop_bit 2 (uint byte1),
      push_bit 4 (uint byte1 AND 0x3) OR drop_bit 4 (uint byte2),
      push_bit 2 (uint byte2 AND 0xF) OR drop_bit 6 (uint byte3),
      uint byte3 AND 0x3F]"

definition spec_encode64 :: "byte list \<Rightarrow> jsstring" where
  "spec_encode64 bs = concat (map (\<lambda>g. map (\<lambda>c. chars ! nat c) (sextets g)) (groups3 bs))"

subsection \<open>Inputs for the examples\<close>

text \<open>The library on the empty input at level 9: \<open>deflate\<close> gives the two header bytes
  78 DA, the stream 03 00 and the four checksum bytes; \<open>deflateRaw\<close> gives the stream
  alone. A library whose \<open>deflate\<close> throws.\<close>

definition pako_on_empty :: pako where
  "pako_on_empty =
     \<lparr>deflate = (\<lambda>level data.
        if level = 9 \<and> data = [] then Some [0x78, 0xDA, 0x03, 0x00, 0x00, 0x00, 0x00, 0x01]
        else None),
      deflateRaw = (\<lambda>level data.
        if level = 9 \<and> data = [] then Some [0x03, 0x00] else None)\<rparr>"

definition failing_pako :: pako where
  "failing_pako = \<lparr>deflate = (\<lambda>level data. None), deflateRaw = (\<lambda>level data. None)\<rparr>"

section \<open>JSON values and objects\<close>

text \<open>
  What \<open>JSON.parse\<close> returns. An object is the list of its own properties, each key once;
  property order is kept as written (no claim depends on it). \<open>JSON.parse\<close> itself is a
  parameter of the functions that call it: \<open>None\<close> when it throws \<open>SyntaxError\<close>.
\<close>

datatype json =
    JNull
  | JBool bool
  | JNum rat
  | JStr jsstring
  | JArr "json list"
  | JObj "(jsstring \<times> json) list"

type_synonym object = "(jsstring \<times> json) list"

text \<open>\<open>obj.key\<close>: the value of an own property, \<open>None\<close> for \<open>undefined\<close>.\<close>

definition get_prop :: "object \<Rightarrow> jsstring \<Rightarrow> json option" where
  "get_prop obj k = map_of obj k"

definition set_prop :: "jsstring \<Rightarrow> json \<Rightarrow> object \<Rightarrow> object" where
  "set_prop k v obj =
     (if k \<in> fst ` set obj then map (\<lambda>(k', v'). if k' = k then (k', v) else (k', v')) obj
      else obj @ [(k, v)])"

function decimal :: "nat \<Rightarrow> jsstring" where
  "decimal n = (if n < 10 then [of_nat (48 + n)] else decimal (n div 10) @ [of_nat (48 + n mod 10)])"
  by pat_completeness auto
termination
  by (relation "measure id") auto

declare decimal.simps [simp del]

text \<open>The own enumerable properties a spread \<open>...v\<close> copies: those of an object, the
  indexed elements of an array, the indexed characters of a string, nothing otherwise.\<close>

definition own_properties :: "json \<Rightarrow> object" where
  "own_properties v =
     (case v of
        JObj kvs \<Rightarrow> kvs
      | JArr xs \<Rightarrow> map (\<lambda>i. (decimal i, xs ! i)) [0..<length xs]
      | JStr s \<Rightarrow> map (\<lambda>i. (decimal i, JStr [s ! i])) [0..<length s]
      | _ \<Rightarrow> [])"

text \<open>\<open>{ ...obj, ...v }\<close> continues the object literal \<open>obj\<close> with the properties of \<open>v\<close>.\<close>

definition spread :: "object \<Rightarrow> json \<Rightarrow> object" where
  "spread obj v = foldl (\<lambda>acc (k, x). set_prop k x acc) obj (own_properties v)"

section \<open>The AI configuration (components/AIConfigModal.vue, views/DesignStudio.vue)\<close>

definition defaultConfig :: object where
  "defaultConfig =
     [(js ''provider'', JStr (js ''demo'')),
      (js ''apiKey'', JStr []),
      (js ''apiUrl'', JStr []),
      (js ''model'', JStr (js ''gpt-4'')),
      (js ''temperature'', JNum (7 / 10)),
      (js ''maxTokens'', JNum 2000),
      (js ''timeout'', JNum 30),
      (js ''templateUrl'', JStr (js ''https://api.example.com/templates'')),
      (js ''enableRemoteTemplate'', JBool False),
      (js ''enableStreaming'', JBool True),
      (js ''enableAutoSuggest'', JBool False)]"

text \<open>The browser as the two loaders see it: \<open>localStorage\<close> and \<open>JSON.parse\<close>.\<close>

record browser =
  localStorage :: "jsstring \<rightharpoonup> jsstring"
  JSON_parse :: "jsstring \<Rightarrow> json option"

definition config_key :: jsstring where
  "config_key = js ''ai-flow-studio-ai-config''"

text \<open>\<open>loadConfig\<close> of the configuration dialog: \<open>config.value\<close> before and after. A
  missing or empty item and a parse error (caught and logged) leave the configuration as
  it is.\<close>

definition loadConfig :: "browser \<Rightarrow> object \<Rightarrow> object" where
  "loadConfig b config =
     (case localStorage b config_key of
        None \<Rightarrow> config
      | Some saved \<Rightarrow>
          if saved = [] then config
          else (case JSON_parse b saved of
                  None \<Rightarrow> config
                | Some parsed \<Rightarrow> spread (spread [] (JObj defaultConfig)) parsed))"

text \<open>The configuration part of \<open>onMounted\<close> of the design studio: \<open>aiConfig.value\<close>
  before and after; the parsed value is assigned as it is.\<close>

definition onMounted_aiConfig :: "browser \<Rightarrow> json \<Rightarrow> json" where
  "onMounted_aiConfig b aiConfig =
     (case localStorage b config_key of
        None \<Rightarrow> aiConfig
      | Some savedConfig \<Rightarrow>
          if savedConfig = [] then aiConfig
          else (case JSON_parse b savedConfig of
                  None \<Rightarrow> aiConfig
                | Some parsed \<Rightarrow> parsed))"

text \<open>A field of a configuration value: \<open>None\<close> when it is absent (\<open>undefined\<close>).\<close>

definition field :: "json \<Rightarrow> jsstring \<Rightarrow> json option" where
  "field v k = (case v of JObj kvs \<Rightarrow> get_prop kvs k | _ \<Rightarrow> None)"

definition complete :: "json \<Rightarrow> bool" where
  "complete v = list_all (\<lambda>k. field v k \<noteq> None) (map fst defaultConfig)"

text \<open>A browser whose stored configuration is the text \<open>{"provider":"openai"}\<close>.\<close>

definition provider_only_text :: jsstring where
  "provider_only_text =
     js ''{'' @ [0x22] @ js ''provider'' @ [0x22] @ js '':'' @ [0x22] @ js ''openai'' @ [0x22] @ js ''}''"

definition stored_provider_only :: browser where
  "stored_provider_only =
     \<lparr>localStorage = [config_key \<mapsto> provider_only_text],
      JSON_parse = (\<lambda>s.
        if s = provider_only_text then Some (JObj [(js ''provider'', JStr (js ''openai''))])
        else None)\<rparr>"

section \<open>The remote template loader (RemoteTemplates.vue, two versions)\<close>

record templates_state =
  templates :: "json list"
  isLoading :: bool
  error :: "jsstring option"

text \<open>The messages of the two loaders.\<close>

definition msg_remote_failed :: jsstring where
  "msg_remote_failed =
     [0x52A0, 0x8F7D, 0x8FDC, 0x7A0B, 0x6A21, 0x677F, 0x5931, 0x8D25, 0xFF0C, 0x8BF7, 0x68C0,
      0x67E5] @ js '' URL '' @ [0x914D, 0x7F6E]"

definition msg_url_missing :: jsstring where
  "msg_url_missing = [0x672A, 0x914D, 0x7F6E, 0x8FDC, 0x7A0B, 0x6A21, 0x677F] @ js '' URL''"

definition msg_url_missing_settings :: jsstring where
  "msg_url_missing_settings =
     [0x672A, 0x914D, 0x7F6E, 0x8FDC, 0x7A0B, 0x6A21, 0x677F] @ js '' URL'' @
     [0xFF0C, 0x8BF7, 0x5728, 0x8BBE, 0x7F6E, 0x4E2D, 0x914D, 0x7F6E]"

definition msg_bad_format :: jsstring where
  "msg_bad_format = [0x8FDC, 0x7A0B, 0x6A21, 0x677F, 0x683C, 0x5F0F, 0x4E0D, 0x6B63, 0x786E]"

definition msg_parse_failed :: jsstring where
  "msg_parse_failed = [0x89E3, 0x6790, 0x6A21, 0x677F, 0x6570, 0x636E, 0x5931, 0x8D25] @ js '': ''"

definition msg_load_failed :: jsstring where
  "msg_load_failed = [0x52A0, 0x8F7D, 0x6A21, 0x677F, 0x5931, 0x8D25]"

text \<open>What \<open>await fetch(url)\<close> and \<open>await response.json()\<close> give: the request rejected,
  or a response with its \<open>ok\<close> flag and the parsed body, \<open>None\<close> when the body does not
  parse.\<close>

datatype fetch_outcome = Fetch_rejected | Fetch_response bool "json option"

text \<open>The loader that fetches: \<open>loadTemplates\<close> with \<open>fetch\<close>. Every exception of the
  inner block is caught there; nothing in the outer block throws.\<close>

definition loadTemplates_fetch ::
  "jsstring \<Rightarrow> fetch_outcome \<Rightarrow> templates_state \<Rightarrow> templates_state" where
  "loadTemplates_fetch templateUrl outcome s =
     (let s1 = s\<lparr>isLoading := True, error := None\<rparr>;
          (allTemplates, s2) =
            (if templateUrl \<noteq> [] \<and> trim templateUrl \<noteq> [] then
               (case outcome of
                  Fetch_rejected \<Rightarrow>
                    ([], s1\<lparr>error := Some msg_remote_failed\<rparr>)
                | Fetch_response ok body \<Rightarrow>
                    if \<not> ok then
                      ([], s1\<lparr>error := Some msg_remote_failed\<rparr>)
                    else
                      (case body of
                         None \<Rightarrow>
                           ([], s1\<lparr>error := Some msg_remote_failed\<rparr>)
                       | Some (JArr remoteTemplates) \<Rightarrow> (remoteTemplates, s1)
                       | Some _ \<Rightarrow> ([], s1)))
             else
               ([], s1\<lparr>error := Some msg_url_missing\<rparr>))
      in s2\<lparr>templates := allTemplates, isLoading := False\<rparr>)"

text \<open>The loader that goes through the host: \<open>loadTemplates\<close> with \<open>invoke\<close>. The
  result is the exception that escapes, if any, and the state.\<close>

definition loadTemplates_invoke ::
  "(jsstring \<Rightarrow> json option) \<Rightarrow> jsstring \<Rightarrow> jsstring promise \<Rightarrow> templates_state \<Rightarrow>
     js_error option \<times> templates_state" where
  "loadTemplates_invoke parse templateUrl outcome s =
     (let s1 = s\<lparr>isLoading := True, error := None\<rparr> in
      if templateUrl = [] \<or> trim templateUrl = [] then
        (None, s1\<lparr>error := Some msg_url_missing_settings,
                  templates := [], isLoading := False\<rparr>)
      else
        (case outcome of
           Resolved result \<Rightarrow>
             (case parse result of
                Some (JArr parsed) \<Rightarrow>
                  (None, s1\<lparr>templates := parsed, error := None, isLoading := False\<rparr>)
              | Some _ \<Rightarrow>
                  (None, s1\<lparr>error := Some msg_bad_format,
                            templates := [], isLoading := False\<rparr>)
              | None \<Rightarrow>
                  (None, s1\<lparr>error := Some (msg_parse_failed @ result),
                            templates := [], isLoading := False\<rparr>))
         | Rejected Reject_nullish \<Rightarrow> (Some TypeError, s1\<lparr>isLoading := False\<rparr>)
         | Rejected (Reject_message m) \<Rightarrow>
             (None, s1\<lparr>error := Some (if m \<noteq> [] then m
                                        else msg_load_failed),
                       templates := [], isLoading := False\<rparr>)
         | Rejected Reject_plain \<Rightarrow>
             (None, s1\<lparr>error := Some msg_load_failed,
                       templates := [], isLoading := False\<rparr>)))"

definition is_array :: "json \<Rightarrow> bool" where
  "is_array v = (case v of JArr xs \<Rightarrow> True | _ \<Rightarrow> False)"


section \<open>The template upload dialog (components/TemplateUploadModal.vue)\<close>

record upload_form =
  title :: jsstring
  description :: jsstring
  category :: jsstring
  tags :: jsstring
  content :: jsstring
  isUploading :: bool
  uploadResult :: "(bool \<times> jsstring) option"
  showSuccess :: bool

record templateData =
  t_id :: jsstring
  t_name :: jsstring
  t_description :: jsstring
  t_content :: jsstring
  t_category :: jsstring
  t_tags :: "jsstring list"
  t_author :: jsstring
  t_createdAt :: jsstring

text \<open>What the dialog asks of its surroundings: the host command, the local storage write
  of the fallback, and the timer that closes the dialog.\<close>

datatype upload_effect =
    Invoke_save_template templateData
  | LocalStorage_setItem jsstring jsstring
  | Set_timeout nat

text \<open>\<open>Date.now()\<close> and \<open>new Date().toISOString()\<close>, the outcome of the host command,
  the parser and serialiser, whether the storage quota is exceeded, and how the engine prints
  an exception.\<close>

record upload_env =
  Date_now :: nat
  Date_toISOString :: jsstring
  save_template :: "unit promise"
  storage :: browser
  JSON_stringify :: "json \<Rightarrow> jsstring"
  quota_exceeded :: bool
  error_text :: "js_error \<Rightarrow> jsstring"

definition msg_fill_title :: jsstring where
  "msg_fill_title = [0x8BF7, 0x586B, 0x5199, 0x6A21, 0x677F, 0x6807, 0x9898]"

definition msg_upload_ok :: jsstring where
  "msg_upload_ok = [0x6A21, 0x677F, 0x4E0A, 0x4F20, 0x6210, 0x529F, 0xFF01]"

definition msg_upload_failed :: jsstring where
  "msg_upload_failed = [0x4E0A, 0x4F20, 0x5931, 0x8D25] @ js '': ''"

definition author_user :: jsstring where
  "author_user = [0x7528, 0x6237]"

definition local_templates_key :: jsstring where
  "local_templates_key = js ''ai-flow-studio-local-templates''"

text \<open>\<open>s.split(',')\<close>\<close>

fun split_on :: "jschar \<Rightarrow> jsstring \<Rightarrow> jsstring list" where
  "split_on sep [] = [[]]"
| "split_on sep (c # cs) =
     (if c = sep then [] # split_on sep cs
      else (case split_on sep cs of
              [] \<Rightarrow> [[c]]
            | piece # pieces \<Rightarrow> (c # piece) # pieces))"

definition isFormValid :: "upload_form \<Rightarrow> bool" where
  "isFormValid f = (length (trim (title f)) > 0 \<and> length (trim (content f)) > 0)"

definition template_json :: "templateData \<Rightarrow> json" where
  "template_json d =
     JObj [(js ''id'', JStr (t_id d)), (js ''name'', JStr (t_name d)),
           (js ''description'', JStr (t_description d)), (js ''content'', JStr (t_content d)),
           (js ''category'', JStr (t_category d)), (js ''tags'', JArr (map JStr (t_tags d))),
           (js ''author'', JStr (t_author d)), (js ''createdAt'', JStr (t_createdAt d))]"

text \<open>\<open>saveToLocalStorage\<close>: the new list is written under the key, the template first.
  A stored text that does not parse counts as no templates; a stored value that is not an
  array has no \<open>unshift\<close>, and the call throws.\<close>

definition saveToLocalStorage :: "upload_env \<Rightarrow> templateData \<Rightarrow> js_error + upload_effect list" where
  "saveToLocalStorage env d =
     (let existing = localStorage (storage env) local_templates_key;
          parsed =
            (case existing of
               None \<Rightarrow> Some (JArr [])
             | Some e \<Rightarrow>
                 if e = [] then Some (JArr [])
                 else (case JSON_parse (storage env) e of
                         None \<Rightarrow> Some (JArr [])
                       | Some v \<Rightarrow> Some v))
      in case parsed of
           Some (JArr ts) \<Rightarrow>
             if quota_exceeded env then Inl LibraryError
             else Inr [LocalStorage_setItem local_templates_key
                         (JSON_stringify env (JArr (template_json d # ts)))]
         | _ \<Rightarrow> Inl TypeError)"

definition handleUpload :: "upload_env \<Rightarrow> upload_form \<Rightarrow> upload_form \<times> upload_effect list" where
  "handleUpload env f =
     (if \<not> isFormValid f then (f\<lparr>uploadResult := Some (False, msg_fill_title)\<rparr>, [])
      else
        (let f1 = f\<lparr>isUploading := True, uploadResult := None\<rparr>;
             d = \<lparr>t_id = js ''template_'' @ decimal (Date_now env),
                  t_name = trim (title f),
                  t_description = trim (description f),
                  t_content = content f,
                  t_category = category f,
                  t_tags = filter (\<lambda>t. length t > 0) (map trim (split_on 0x2C (tags f))),
                  t_author = author_user,
                  t_createdAt = Date_toISOString env\<rparr>;
             done = f1\<lparr>showSuccess := True, uploadResult := Some (True, msg_upload_ok),
                        isUploading := False\<rparr>
         in case save_template env of
              Resolved u \<Rightarrow> (done, [Invoke_save_template d, Set_timeout 1500])
            | Rejected e \<Rightarrow>
                (case saveToLocalStorage env d of
                   Inr written \<Rightarrow> (done, Invoke_save_template d # written @ [Set_timeout 1500])
                 | Inl err \<Rightarrow>
                     (f1\<lparr>uploadResult := Some (False, msg_upload_failed @ error_text env err),
                         isUploading := False\<rparr>,
                      [Invoke_save_template d]))))"

definition is_upload_request :: "upload_effect \<Rightarrow> bool" where
  "is_upload_request e = (case e of Invoke_save_template d \<Rightarrow> True | _ \<Rightarrow> False)"

definition blank_title_form :: upload_form where
  "blank_title_form =
     \<lparr>title = js ''  '', description = js ''d'', category = [0x6587, 0x6863], tags = js ''a, b'',
      content = js ''# doc'', isUploading = False, uploadResult = None, showSuccess = False\<rparr>"

definition host_up :: upload_env where
  "host_up =
     \<lparr>Date_now = 1700000000000, Date_toISOString = js ''2023-11-14T22:13:20.000Z'',
      save_template = Resolved (),
      storage = \<lparr>localStorage = Map.empty, JSON_parse = (\<lambda>s. None)\<rparr>,
      JSON_stringify = (\<lambda>v. []), quota_exceeded = False, error_text = (\<lambda>e. js ''Error'')\<rparr>"


section \<open>The metrics dashboard (MetricsDashboard.vue)\<close>

record MetricData =
  date :: jsstring
  ai_generate_time_minutes :: rat
  ai_lines_of_code :: rat
  manual_lines_of_code :: rat
  review_comments_count :: rat
  resolved_comments_count :: rat

text \<open>
  Arrays live in a store and are named by reference, so that sorting in place and copying
  can be told apart: \<open>alloc\<close> is a new array, \<open>h ! r\<close> the array behind \<open>r\<close>.
\<close>

type_synonym 'a store = "'a list list"

definition alloc :: "'a store \<Rightarrow> 'a list \<Rightarrow> 'a store \<times> nat" where
  "alloc h xs = (h @ [xs], length h)"

text \<open>
  \<open>new Date(s).getTime()\<close> is a parameter: the time value of a date text, \<open>None\<close> for
  \<open>NaN\<close> when the text is not a date. The comparator subtracts two time values; a \<open>NaN\<close>
  difference counts as 0 in \<open>sort\<close>.
\<close>

definition compare_dates :: "(jsstring \<Rightarrow> int option) \<Rightarrow> MetricData \<Rightarrow> MetricData \<Rightarrow> int" where
  "compare_dates getTime a b =
     (case (getTime (date a), getTime (date b)) of
        (Some ta, Some tb) \<Rightarrow> ta - tb
      | _ \<Rightarrow> 0)"

text \<open>
  \<open>Array.prototype.sort\<close> of the engine is a parameter \<open>srt\<close> of \<open>chartData\<close>: the
  comparator and the elements in, the elements in their new order out. ECMAScript fixes the
  result only for a consistent comparator, where the sort is stable; \<open>ecma_sort\<close> says so
  for comparators that subtract an integer key. For any other comparator (one that yields
  \<open>NaN\<close>) the order is the engine's own, and nothing is assumed of it.
\<close>

definition ecma_sort :: "(('a \<Rightarrow> 'a \<Rightarrow> int) \<Rightarrow> 'a list \<Rightarrow> 'a list) \<Rightarrow> bool" where
  "ecma_sort srt =
     (\<forall>cmp key xs.
        (\<forall>a \<in> set xs. \<forall>b \<in> set xs. cmp a b = key a - key b) \<longrightarrow>
        srt cmp xs = sort_key key xs)"

definition sort_in_place ::
  "(('a \<Rightarrow> 'a \<Rightarrow> int) \<Rightarrow> 'a list \<Rightarrow> 'a list) \<Rightarrow> ('a \<Rightarrow> 'a \<Rightarrow> int) \<Rightarrow> 'a store \<Rightarrow> nat \<Rightarrow> 'a store" where
  "sort_in_place srt cmp h r = h[r := srt cmp (h ! r)]"

text \<open>\<open>xs.slice(start)\<close>: a negative \<open>start\<close> counts from the end.\<close>

definition slice :: "int \<Rightarrow> 'a list \<Rightarrow> 'a list" where
  "slice start xs =
     (let len = int (length xs);
          k = (if start < 0 then max (len + start) 0 else min start len)
      in drop (nat k) xs)"

text \<open>\<open>chartData\<close>: \<open>[...metrics.value]\<close> is a new array, \<open>sort\<close> sorts that array in
  place, \<open>slice(-7)\<close> is a new array again. The result is the store and the reference of the
  returned array.\<close>

definition chartData ::
  "(jsstring \<Rightarrow> int option) \<Rightarrow>
   ((MetricData \<Rightarrow> MetricData \<Rightarrow> int) \<Rightarrow> MetricData list \<Rightarrow> MetricData list) \<Rightarrow>
   MetricData store \<Rightarrow> nat \<Rightarrow> MetricData store \<times> nat" where
  "chartData getTime srt h metrics =
     (let (h1, sorted) = alloc h (h ! metrics);
          h2 = sort_in_place srt (compare_dates getTime) h1 sorted
      in alloc h2 (slice (-7) (h2 ! sorted)))"

text \<open>The time value of a record whose date parses.\<close>

definition time_of :: "(jsstring \<Rightarrow> int option) \<Rightarrow> MetricData \<Rightarrow> int" where
  "time_of getTime m = (case getTime (date m) of Some t \<Rightarrow> t | None \<Rightarrow> 0)"

definition dated :: "(jsstring \<Rightarrow> int option) \<Rightarrow> MetricData list \<Rightarrow> bool" where
  "dated getTime ms = list_all (\<lambda>m. getTime (date m) \<noteq> None) ms"

text \<open>
  One sort that meets \<open>ecma_sort\<close>, for the examples: a stable insertion sort that reads a
  comparator result as \<open>sort\<close> does (not positive: keep the order). On the three records of
  the example below the engines leave the array as this sort does.
\<close>

fun insert_sorted :: "('a \<Rightarrow> 'a \<Rightarrow> int) \<Rightarrow> 'a \<Rightarrow> 'a list \<Rightarrow> 'a list" where
  "insert_sorted cmp x [] = [x]"
| "insert_sorted cmp x (y # ys) =
     (if cmp x y \<le> 0 then x # y # ys else y # insert_sorted cmp x ys)"

definition insertion_sort :: "('a \<Rightarrow> 'a \<Rightarrow> int) \<Rightarrow> 'a list \<Rightarrow> 'a list" where
  "insertion_sort cmp xs = foldr (insert_sorted cmp) xs []"

definition metric_on :: "jsstring \<Rightarrow> MetricData" where
  "metric_on d =
     \<lparr>date = d, ai_generate_time_minutes = 0, ai_lines_of_code = 0, manual_lines_of_code = 0,
      review_comments_count = 0, resolved_comments_count = 0\<rparr>"

definition january_dates :: "jsstring \<Rightarrow> int option" where
  "january_dates s =
     (if s = js ''2024-01-05'' then Some 1704412800000
      else if s = js ''2024-01-03'' then Some 1704240000000
      else None)"


section \<open>Diagram generation (views/DesignStudio.vue and its older version)\<close>

text \<open>\<open>s.includes(sub)\<close>\<close>

fun includes_str :: "jsstring \<Rightarrow> jsstring \<Rightarrow> bool" where
  "includes_str [] sub = (sub = [])"
| "includes_str (c # cs) sub = (take (length sub) (c # cs) = sub \<or> includes_str cs sub)"

text \<open>The lines of a template literal, joined by line feeds.\<close>

fun join_lines :: "jsstring list \<Rightarrow> jsstring" where
  "join_lines [] = []"
| "join_lines [l] = l"
| "join_lines (l # m # ls) = l @ [0x0A] @ join_lines (m # ls)"

text \<open>The sequence diagram of a login.\<close>

definition demo_login :: "jsstring \<Rightarrow> jsstring" where
  "demo_login text =
     join_lines
     [[0x0060, 0x0060, 0x0060] @ js ''plantuml'',
      js ''@startuml'',
      js ''!theme plain'',
      js ''skinparam backgroundColor #FEFEFE'',
      js ''title '' @ text,
      [],
      js ''actor '' @ [0x7528, 0x6237] @ js '' as User'',
      js ''participant '' @ [0x0022, 0x524D, 0x7AEF, 0x5E94, 0x7528, 0x0022] @ js '' as Frontend'',
      js ''participant '' @ [0x0022, 0x8BA4, 0x8BC1, 0x670D, 0x52A1, 0x005C] @ js ''nAuth Service'' @ [0x0022] @ js '' as Auth'',
      js ''database '' @ [0x0022, 0x7528, 0x6237, 0x6570, 0x636E, 0x0022] @ js '' as DB'',
      [],
      js ''User -> Frontend: 1. '' @ [0x8F93, 0x5165, 0x8D26, 0x53F7, 0x5BC6, 0x7801],
      js ''Frontend -> Auth: 2. POST /login'',
      js ''Auth -> DB: 3. '' @ [0x67E5, 0x8BE2, 0x7528, 0x6237, 0x4FE1, 0x606F],
      js ''DB --> Auth: 4. '' @ [0x8FD4, 0x56DE, 0x7528, 0x6237, 0x6570, 0x636E],
      js ''Auth -> Auth: 5. '' @ [0x9A8C, 0x8BC1, 0x5BC6, 0x7801, 0x54C8, 0x5E0C],
      [],
      js ''alt '' @ [0x9A8C, 0x8BC1, 0x6210, 0x529F],
      js ''    Auth --> Frontend: 6a. '' @ [0x8FD4, 0x56DE] @ js '' JWT Token'',
      js ''    Frontend --> User: 7a. '' @ [0x767B, 0x5F55, 0x6210, 0x529F, 0x8DF3, 0x8F6C],
      js ''else '' @ [0x9A8C, 0x8BC1, 0x5931, 0x8D25],
      js ''    Auth --> Frontend: 6b. '' @ [0x8FD4, 0x56DE] @ js '' 401 '' @ [0x9519, 0x8BEF],
      js ''    Frontend --> User: 7b. '' @ [0x663E, 0x793A, 0x9519, 0x8BEF, 0x63D0, 0x793A],
      js ''end'',
      [],
      js ''@enduml'',
      [0x0060, 0x0060, 0x0060]]"

text \<open>The sequence diagram of an order.\<close>

definition demo_order :: "jsstring \<Rightarrow> jsstring" where
  "demo_order text =
     join_lines
     [[0x0060, 0x0060, 0x0060] @ js ''plantuml'',
      js ''@startuml'',
      js ''!theme plain'',
      js ''skinparam backgroundColor #FEFEFE'',
      js ''title '' @ text,
      [],
      js ''actor '' @ [0x7528, 0x6237] @ js '' as User'',
      js ''participant '' @ [0x0022, 0x8BA2, 0x5355, 0x670D, 0x52A1, 0x005C] @ js ''nOrder Service'' @ [0x0022] @ js '' as Order'',
      js ''participant '' @ [0x0022, 0x5E93, 0x5B58, 0x670D, 0x52A1, 0x005C] @ js ''nStock Service'' @ [0x0022] @ js '' as Stock'',
      js ''participant '' @ [0x0022, 0x652F, 0x4ED8, 0x670D, 0x52A1, 0x005C] @ js ''nPayment Service'' @ [0x0022] @ js '' as Pay'',
      js ''database '' @ [0x0022, 0x8BA2, 0x5355, 0x6570, 0x636E, 0x5E93, 0x0022] @ js '' as OrderDB'',
      [],
      js ''group '' @ [0x521B, 0x5EFA, 0x8BA2, 0x5355],
      js ''    User -> Order: 1. '' @ [0x63D0, 0x4EA4, 0x8BA2, 0x5355, 0x8BF7, 0x6C42],
      js ''    Order -> Stock: 2. '' @ [0x68C0, 0x67E5, 0x5E93, 0x5B58],
      js ''    Stock --> Order: 3. '' @ [0x5E93, 0x5B58, 0x5145, 0x8DB3],
      js ''    Order -> OrderDB: 4. '' @ [0x4FDD, 0x5B58, 0x8BA2, 0x5355] @ js ''('' @ [0x72B6, 0x6001] @ js '':'' @ [0x5F85, 0x652F, 0x4ED8] @ js '')'',
      js ''    Order --> User: 5. '' @ [0x8BA2, 0x5355, 0x521B, 0x5EFA, 0x6210, 0x529F],
      js ''end'',
      [],
      js ''group '' @ [0x652F, 0x4ED8, 0x6D41, 0x7A0B],
      js ''    User -> Pay: 6. '' @ [0x53D1, 0x8D77, 0x652F, 0x4ED8],
      js ''    Pay -> OrderDB: 7. '' @ [0x66F4, 0x65B0, 0x8BA2, 0x5355, 0x72B6, 0x6001] @ js ''('' @ [0x5DF2, 0x652F, 0x4ED8] @ js '')'',
      js ''    OrderDB --> Pay: 8. '' @ [0x66F4, 0x65B0, 0x6210, 0x529F],
      js ''    Pay --> User: 9. '' @ [0x652F, 0x4ED8, 0x6210, 0x529F, 0x786E, 0x8BA4],
      js ''end'',
      [],
      js ''@enduml'',
      [0x0060, 0x0060, 0x0060]]"

text \<open>The class diagram.\<close>

definition demo_class :: "jsstring \<Rightarrow> jsstring" where
  "demo_class text =
     join_lines
     [[0x0060, 0x0060, 0x0060] @ js ''plantuml'',
      js ''@startuml'',
      js ''!theme plain'',
      js ''skinparam backgroundColor #FEFEFE'',
      js ''title '' @ text @ js '' - '' @ [0x7C7B, 0x56FE],
      [],
      js ''class User {'',
      js ''  - Long id'',
      js ''  - String username'',
      js ''  - String email'',
      js ''  + Boolean login()'',
      js ''  + void logout()'',
      js ''}'',
      [],
      js ''class Order {'',
      js ''  - Long id'',
      js ''  - Long userId'',
      js ''  - BigDecimal amount'',
      js ''  + Boolean pay()'',
      js ''  + Boolean cancel()'',
      js ''}'',
      [],
      js ''User '' @ [0x0022] @ js ''1'' @ [0x0022] @ js '' --> '' @ [0x0022] @ js ''*'' @ [0x0022] @ js '' Order : '' @ [0x62E5, 0x6709] @ js '' >'',
      [],
      js ''@enduml'',
      [0x0060, 0x0060, 0x0060]]"

text \<open>The default activity diagram.\<close>

definition demo_flow :: "jsstring \<Rightarrow> jsstring" where
  "demo_flow text =
     join_lines
     [[0x0060, 0x0060, 0x0060] @ js ''plantuml'',
      js ''@startuml'',
      js ''!theme plain'',
      js ''skinparam backgroundColor #FEFEFE'',
      js ''title '' @ text,
      [],
      js ''start'',
      js '':'' @ [0x63A5, 0x6536, 0x7528, 0x6237, 0x8F93, 0x5165] @ js '';'',
      js '':'' @ [0x7CFB, 0x7EDF, 0x5904, 0x7406, 0x8BF7, 0x6C42] @ js '';'',
      js ''if ('' @ [0x6761, 0x4EF6, 0x5224, 0x65AD] @ js ''?) then ('' @ [0x6761, 0x4EF6, 0x6210, 0x7ACB] @ js '')'',
      js ''  :'' @ [0x6267, 0x884C, 0x5206, 0x652F] @ js '' A;'',
      js ''else ('' @ [0x6761, 0x4EF6, 0x4E0D, 0x6210, 0x7ACB] @ js '')'',
      js ''  :'' @ [0x6267, 0x884C, 0x5206, 0x652F] @ js '' B;'',
      js ''endif'',
      js '':'' @ [0x8FD4, 0x56DE, 0x54CD, 0x5E94] @ js '';'',
      js ''stop'',
      [],
      js ''@enduml'',
      [0x0060, 0x0060, 0x0060]]"

text \<open>The one diagram of the older \<open>generatePlantUML\<close>.\<close>

definition demoPlantUML :: "jsstring" where
  "demoPlantUML =
     join_lines
     [js ''@startuml'',
      js ''!theme plain'',
      js ''skinparam backgroundColor #FEFEFE'',
      [],
      js ''actor '' @ [0x7528, 0x6237],
      js ''participant '' @ [0x0022, 0x524D, 0x7AEF, 0x754C, 0x9762, 0x0022] @ js '' as UI'',
      js ''participant '' @ [0x0022] @ js ''AI'' @ [0x670D, 0x52A1, 0x0022] @ js '' as AI'',
      js ''database '' @ [0x0022, 0x6587, 0x6863, 0x5B58, 0x50A8, 0x0022] @ js '' as DB'',
      [],
      [0x7528, 0x6237] @ js '' -> UI: '' @ [0x8F93, 0x5165, 0x9700, 0x6C42, 0x63CF, 0x8FF0],
      js ''UI -> AI: '' @ [0x8C03, 0x7528, 0x751F, 0x6210, 0x63A5, 0x53E3],
      js ''AI -> AI: '' @ [0x5206, 0x6790, 0x9700, 0x6C42],
      js ''AI -> UI: '' @ [0x8FD4, 0x56DE] @ js ''PlantUML'' @ [0x4EE3, 0x7801],
      js ''UI -> DB: '' @ [0x4FDD, 0x5B58, 0x6587, 0x6863],
      js ''UI -> '' @ [0x7528, 0x6237] @ js '': '' @ [0x663E, 0x793A, 0x751F, 0x6210, 0x7ED3, 0x679C],
      [],
      js ''@enduml'']"

text \<open>The block the older \<open>generatePlantUML\<close> appends around a diagram.\<close>

definition plantumlBlock :: "jsstring \<Rightarrow> jsstring" where
  "plantumlBlock code =
     join_lines
     [[],
      [],
      js ''## '' @ [0x81EA, 0x52A8, 0x751F, 0x6210, 0x56FE, 0x8868],
      [],
      [0x0060, 0x0060, 0x0060] @ js ''plantuml'',
      code,
      [0x0060, 0x0060, 0x0060],
      []]"

definition login_keywords :: "jsstring list" where
  "login_keywords = [[0x767B, 0x5F55], [0x8BA4, 0x8BC1], [0x9274, 0x6743]]"

definition order_keywords :: "jsstring list" where
  "order_keywords = [[0x8BA2, 0x5355], [0x4E0B, 0x5355], [0x8D2D, 0x4E70]]"

definition class_keywords :: "jsstring list" where
  "class_keywords = [[0x7C7B], js ''class'', [0x5BF9, 0x8C61]]"

text \<open>\<open>generateDemoPlantUML\<close>. \<open>toLowerCase\<close> of the engine is a parameter.\<close>

definition generateDemoPlantUML :: "(jsstring \<Rightarrow> jsstring) \<Rightarrow> jsstring \<Rightarrow> jsstring" where
  "generateDemoPlantUML toLowerCase text =
     (let desc_lower = toLowerCase text in
      if list_ex (includes_str desc_lower) login_keywords then demo_login text
      else if list_ex (includes_str desc_lower) order_keywords then demo_order text
      else if list_ex (includes_str desc_lower) class_keywords then demo_class text
      else demo_flow text)"

text \<open>The state of the page that generation touches. \<open>editor\<close> is the Markdown the editor
  instance holds, \<open>None\<close> while there is no instance.\<close>

record studio =
  aiInput :: jsstring
  isGenerating :: bool
  showAiPanel :: bool
  docContent :: jsstring
  editor :: "jsstring option"
  toastMessage :: jsstring
  showToast :: bool

definition heading_generated :: jsstring where
  "heading_generated =
     [0x000A, 0x000A] @ js ''## '' @ [0x81EA, 0x52A8, 0x751F, 0x6210, 0x56FE, 0x8868, 0x000A, 0x000A]"

definition msg_need_description :: jsstring where
  "msg_need_description = [0x8BF7, 0x8F93, 0x5165, 0x9700, 0x6C42, 0x63CF, 0x8FF0]"

definition msg_generated :: jsstring where
  "msg_generated = js ''PlantUML '' @ [0x56FE, 0x8868, 0x5DF2, 0x751F, 0x6210]"

definition msg_demo_generated :: jsstring where
  "msg_demo_generated =
     [0x5DF2, 0x751F, 0x6210, 0x793A, 0x4F8B, 0x56FE, 0x8868, 0xFF08, 0x6F14, 0x793A, 0x6A21,
      0x5F0F, 0xFF09]"

definition showToastMessage :: "jsstring \<Rightarrow> studio \<Rightarrow> studio" where
  "showToastMessage msg s = s\<lparr>toastMessage := msg, showToast := True\<rparr>"

definition insertPlantUMLToEditor :: "jsstring \<Rightarrow> studio \<Rightarrow> studio" where
  "insertPlantUMLToEditor plantumlCode s =
     (case editor s of
        None \<Rightarrow> s
      | Some currentContent \<Rightarrow>
          (let newContent = currentContent @ heading_generated @ plantumlCode
           in s\<lparr>docContent := newContent, editor := Some newContent\<rparr>))"

text \<open>
  \<open>generatePlantUMLFromInput\<close> is asynchronous. It reads \<open>aiInput.value\<close> for the
  guard and for the request, sets the flag, and waits; when the promise of
  \<open>invoke('generate_plantuml', ...)\<close> settles it reads \<open>aiInput.value\<close> and
  \<open>editor.value\<close> again. \<open>outcome\<close> is how the promise settles, and \<open>during\<close> is what
  the other handlers of the page (the text area stays editable) do to the state while the
  function waits. With a blank description the command is not invoked.
\<close>

definition generatePlantUMLFromInput ::
  "(jsstring \<Rightarrow> jsstring) \<Rightarrow> jsstring promise \<Rightarrow> (studio \<Rightarrow> studio) \<Rightarrow> studio \<Rightarrow> studio" where
  "generatePlantUMLFromInput toLowerCase outcome during s =
     (if trim (aiInput s) = [] then showToastMessage msg_need_description s
      else
        (let s1 = during (s\<lparr>isGenerating := True\<rparr>);
             s2 =
               (case outcome of
                  Resolved result \<Rightarrow>
                    showToastMessage msg_generated
                      ((insertPlantUMLToEditor result s1)\<lparr>aiInput := [], showAiPanel := False\<rparr>)
                | Rejected err \<Rightarrow>
                    (let demoPlantUML = generateDemoPlantUML toLowerCase (aiInput s1)
                     in showToastMessage msg_demo_generated
                          ((insertPlantUMLToEditor demoPlantUML s1)
                             \<lparr>aiInput := [], showAiPanel := False\<rparr>)))
         in s2\<lparr>isGenerating := False\<rparr>))"

text \<open>The older \<open>generatePlantUML\<close> (src/unnamed/part_002): the same command and the
  same waiting, one fixed diagram on failure, and \<open>editor.value?.getMarkdown() || ''\<close>
  for the current content.\<close>

definition append_block :: "jsstring \<Rightarrow> studio \<Rightarrow> studio" where
  "append_block code s =
     (let currentContent = (case editor s of None \<Rightarrow> [] | Some md \<Rightarrow> md);
          newContent = currentContent @ plantumlBlock code
      in s\<lparr>docContent := newContent,
           editor := (case editor s of None \<Rightarrow> None | Some md \<Rightarrow> Some newContent),
           aiInput := [], showAiPanel := False\<rparr>)"

definition generatePlantUML :: "jsstring promise \<Rightarrow> (studio \<Rightarrow> studio) \<Rightarrow> studio \<Rightarrow> studio" where
  "generatePlantUML outcome during s =
     (if trim (aiInput s) = [] then s
      else
        (let s1 = during (s\<lparr>isGenerating := True\<rparr>);
             s2 = (case outcome of
                     Resolved result \<Rightarrow> append_block result s1
                   | Rejected err \<Rightarrow> append_block demoPlantUML s1)
         in s2\<lparr>isGenerating := False\<rparr>))"

text \<open>\<open>toLowerCase\<close> on ASCII letters; every other code unit is left as it is.\<close>

definition ascii_lower :: "jsstring \<Rightarrow> jsstring" where
  "ascii_lower s = map (\<lambda>c. if 0x41 \<le> c \<and> c \<le> 0x5A then c + 0x20 else c) s"

text \<open>A page for the examples; \<open>idle\<close> is a wait during which nothing else happens,
  \<open>retyped\<close> one during which the description is replaced.\<close>

definition idle :: "studio \<Rightarrow> studio" where
  "idle s = s"

definition retyped :: "jsstring \<Rightarrow> studio \<Rightarrow> studio" where
  "retyped input s = s\<lparr>aiInput := input\<rparr>"

definition studio_with :: "jsstring \<Rightarrow> jsstring option \<Rightarrow> studio" where
  "studio_with input ed =
     \<lparr>aiInput = input, isGenerating = False, showAiPanel = True, docContent = js ''# doc'',
      editor = ed, toastMessage = [], showToast = False\<rparr>"

chapter \<open>Verification\<close>

section \<open>The diagram encoder\<close>

lemma drop_bit_byte:
  fixes b :: int
  assumes "0 \<le> b" "b < 256"
  shows "0 \<le> drop_bit 2 b" "drop_bit 2 b < 64" "0 \<le> drop_bit 4 b" "drop_bit 4 b < 16"
    "0 \<le> drop_bit 6 b" "drop_bit 6 b < 4"
proof -
  have "b div 4 < 64" "b div 16 < 16" "b div 64 < 4" "0 \<le> b div 4" "0 \<le> b div 16" "0 \<le> b div 64"
    using assms by presburger+
  then show "0 \<le> drop_bit 2 b" "drop_bit 2 b < 64" "0 \<le> drop_bit 4 b" "drop_bit 4 b < 16"
    "0 \<le> drop_bit 6 b" "drop_bit 6 b < 4"
    by (simp_all add: drop_bit_eq_div)
qed

lemma and_mask_bounds:
  fixes b :: int
  assumes "0 \<le> b"
  shows "0 \<le> b AND 3" "b AND 3 \<le> 3" "0 \<le> b AND 15" "b AND 15 \<le> 15" "0 \<le> b AND 63" "b AND 63 \<le> 63"
proof -
  show "0 \<le> b AND 3" "0 \<le> b AND 15" "0 \<le> b AND 63" using assms by simp_all
  show "b AND 3 \<le> 3" using AND_upper2 [of 3 b] by simp
  show "b AND 15 \<le> 15" using AND_upper2 [of 15 b] by simp
  show "b AND 63 \<le> 63" using AND_upper2 [of 63 b] by simp
qed

lemma length_chars: "length chars = 64"
  by (simp add: chars_def js_def)

lemma sextet_range:
  fixes b1 b2 b3 :: int
  assumes "0 \<le> b1" "b1 < 256" "0 \<le> b2" "b2 < 256" "0 \<le> b3" "b3 < 256"
  shows "0 \<le> drop_bit 2 b1" "drop_bit 2 b1 < 64"
    and "0 \<le> push_bit 4 (b1 AND 3) OR drop_bit 4 b2" "push_bit 4 (b1 AND 3) OR drop_bit 4 b2 < 64"
    and "0 \<le> push_bit 2 (b2 AND 15) OR drop_bit 6 b3" "push_bit 2 (b2 AND 15) OR drop_bit 6 b3 < 64"
    and "0 \<le> b3 AND 63" "b3 AND 63 < 64"
proof -
  show "0 \<le> drop_bit 2 b1" "drop_bit 2 b1 < 64"
    using assms drop_bit_byte by blast+
  have p1: "0 \<le> push_bit 4 (b1 AND 3)" "push_bit 4 (b1 AND 3) < 2 ^ 6"
    using and_mask_bounds(1,2) [OF assms(1)] by (simp_all add: push_bit_eq_mult)
  have d1: "0 \<le> drop_bit 4 b2" "drop_bit 4 b2 < 2 ^ 6"
    using drop_bit_byte(3,4) [OF assms(3,4)] by simp_all
  show "0 \<le> push_bit 4 (b1 AND 3) OR drop_bit 4 b2"
    using p1(1) d1(1) by simp
  show "push_bit 4 (b1 AND 3) OR drop_bit 4 b2 < 64"
    using OR_upper [OF p1(1) p1(2) d1(2)] by simp
  have p2: "0 \<le> push_bit 2 (b2 AND 15)" "push_bit 2 (b2 AND 15) < 2 ^ 6"
    using and_mask_bounds(3,4) [OF assms(3)] by (simp_all add: push_bit_eq_mult)
  have d2: "0 \<le> drop_bit 6 b3" "drop_bit 6 b3 < 2 ^ 6"
    using drop_bit_byte(5,6) [OF assms(5,6)] by simp_all
  show "0 \<le> push_bit 2 (b2 AND 15) OR drop_bit 6 b3"
    using p2(1) d2(1) by simp
  show "push_bit 2 (b2 AND 15) OR drop_bit 6 b3 < 64"
    using OR_upper [OF p2(1) p2(2) d2(2)] by simp
  show "0 \<le> b3 AND 63" "b3 AND 63 < 64"
    using and_mask_bounds(5,6) [OF assms(5)] by simp_all
qed

lemma byte_range: "0 \<le> uint (b :: byte)" "uint (b :: byte) < 256"
  using uint_bounded [of b] by simp_all

lemma uint_ucast_byte: "uint (ucast (b :: byte) :: jschar) = uint b"
  by (simp add: uint_up_ucast is_up)

lemma charAt_in_range: "0 \<le> c \<Longrightarrow> c < 64 \<Longrightarrow> charAt chars c = [chars ! nat c]"
  by (simp add: charAt_def length_chars)

lemma append3bytes_bytes:
  "append3bytes (uint (b1 :: byte)) (uint (b2 :: byte)) (uint (b3 :: byte)) =
     map (\<lambda>c. chars ! nat c) (sextets (b1, b2, b3))"
proof -
  note r = sextet_range [OF byte_range(1) [of b1] byte_range(2) [of b1] byte_range(1) [of b2] byte_range(2) [of b2] byte_range(1) [of b3] byte_range(2) [of b3]]
  show ?thesis
    unfolding append3bytes_def Let_def
    using r by (simp add: charAt_in_range)
qed

lemma append3bytes_pad1:
  "append3bytes (uint (b1 :: byte)) (uint (b2 :: byte)) 0 =
     map (\<lambda>c. chars ! nat c) (sextets (b1, b2, 0))"
  using append3bytes_bytes [of b1 b2 0] by simp

lemma append3bytes_pad2:
  "append3bytes (uint (b1 :: byte)) 0 0 = map (\<lambda>c. chars ! nat c) (sextets (b1, 0, 0))"
  using append3bytes_bytes [of b1 0 0] by simp

lemma encode_groups_bytes: "encode_groups (fromCharCode bs) = spec_encode64 bs"
proof (induction bs rule: groups3.induct)
  case 1
  show ?case by (simp add: fromCharCode_def spec_encode64_def)
next
  case (2 a)
  show ?case
    by (simp add: fromCharCode_def spec_encode64_def uint_ucast_byte append3bytes_pad2
          del: sextets.simps)
next
  case (3 a b)
  show ?case
    by (simp add: fromCharCode_def spec_encode64_def uint_ucast_byte append3bytes_pad1
          del: sextets.simps)
next
  case (4 a b c rest)
  then show ?case
    by (simp add: fromCharCode_def spec_encode64_def uint_ucast_byte append3bytes_bytes
          del: sextets.simps)
qed

lemma sextets_range: "c \<in> set (sextets g) \<Longrightarrow> 0 \<le> c \<and> c < 64"
proof (cases g)
  case (fields b1 b2 b3)
  note r = sextet_range [OF byte_range(1) [of b1] byte_range(2) [of b1] byte_range(1) [of b2] byte_range(2) [of b2] byte_range(1) [of b3] byte_range(2) [of b3]]
  assume "c \<in> set (sextets g)"
  then show ?thesis using fields r by auto
qed

lemma drop_last_two: "i + 2 = length xs \<Longrightarrow> drop i xs = [xs ! i, xs ! (i + 1)]"
proof -
  assume a: "i + 2 = length xs"
  then have "drop i xs = xs ! i # drop (Suc i) xs"
    using Cons_nth_drop_Suc [of i xs] by simp
  also have "drop (Suc i) xs = xs ! Suc i # drop (Suc (Suc i)) xs"
    using a Cons_nth_drop_Suc [of "Suc i" xs] by simp
  also have "drop (Suc (Suc i)) xs = []" using a by simp
  finally show ?thesis by simp
qed

lemma drop_last_one: "i + 1 = length xs \<Longrightarrow> drop i xs = [xs ! i]"
proof -
  assume a: "i + 1 = length xs"
  then have "drop i xs = xs ! i # drop (Suc i) xs"
    using Cons_nth_drop_Suc [of i xs] by simp
  also have "drop (Suc i) xs = []" using a by simp
  finally show ?thesis .
qed

lemma drop_three: "i + 2 < length xs \<Longrightarrow>
  drop i xs = xs ! i # xs ! (i + 1) # xs ! (i + 2) # drop (i + 3) xs"
proof -
  assume a: "i + 2 < length xs"
  then have "drop i xs = xs ! i # drop (Suc i) xs"
    using Cons_nth_drop_Suc [of i xs] by simp
  also have "drop (Suc i) xs = xs ! Suc i # drop (Suc (Suc i)) xs"
    using a Cons_nth_drop_Suc [of "Suc i" xs] by simp
  also have "drop (Suc (Suc i)) xs = xs ! Suc (Suc i) # drop (Suc (Suc (Suc i))) xs"
    using a Cons_nth_drop_Suc [of "Suc (Suc i)" xs] by simp
  finally show ?thesis by (simp add: numeral_3_eq_3)
qed

lemma encode64_loop_groups: "encode64_loop data i r = r @ encode_groups (drop i data)"
proof (induction data i r rule: encode64_loop.induct)
  case (1 data i r)
  show ?case
  proof (cases "i < length data")
    case False
    then show ?thesis by (simp add: encode64_loop.simps [of data i r])
  next
    case True
    consider (two) "i + 2 = length data" | (one) "i + 1 = length data" | (more) "i + 2 < length data"
      using True by linarith
    then show ?thesis
    proof cases
      case two
      then show ?thesis
        using 1(1) True
        by (simp add: encode64_loop.simps [of data i r] drop_last_two charCodeAt_def)
    next
      case one
      then show ?thesis
        using 1(2) True
        by (simp add: encode64_loop.simps [of data i r] drop_last_one charCodeAt_def)
    next
      case more
      then show ?thesis
        using 1(3) True
        by (simp add: encode64_loop.simps [of data i r] drop_three charCodeAt_def)
    qed
  qed
qed

lemma encode64_groups: "encode64 data = encode_groups data"
  by (simp add: encode64_def encode64_loop_groups)

text \<open>
  Claim C2. For every byte sequence handed to the custom base64 stage, \<open>encode64\<close> yields
  the concatenation, group by group and in order, of the four alphabet characters of the
  6-bit values \<open>c1 = b1 >> 2\<close>, \<open>c2 = ((b1 & 0x3) << 4) | (b2 >> 4)\<close>,
  \<open>c3 = ((b2 & 0xF) << 2) | (b3 >> 6)\<close>, \<open>c4 = b3 & 0x3F\<close> of each group of three
  bytes, the last group padded with zero bytes; every such value is an index from 0 to 63.
\<close>

theorem encode64_groups_of_three:
  "encode64 (fromCharCode bs) = spec_encode64 bs \<and>
   (\<forall>g \<in> set (groups3 bs). \<forall>c \<in> set (sextets g). 0 \<le> c \<and> c < 64)"
  using sextets_range by (simp add: encode64_groups encode_groups_bytes)

text \<open>C2 at the bytes 78 DA 03 00: two groups, eight characters.\<close>

theorem encode64_groups_of_three_witness:
  "encode64 (fromCharCode [0x78, 0xDA, 0x03, 0x00]) = js ''UDe30000'' \<and>
   spec_encode64 [0x78, 0xDA, 0x03, 0x00] = js ''UDe30000'' \<and>
   groups3 [0x78, 0xDA, 0x03, 0x00] = [(0x78, 0xDA, 0x03), (0x00, 0, 0)] \<and>
   sextets (0x78, 0xDA, 0x03) = [30, 13, 40, 3]"
  using encode64_groups_of_three [of "[0x78, 0xDA, 0x03, 0x00]"]
  by (simp add: spec_encode64_def chars_def js_def)

lemma nat_less_16_cases:
  "(n::nat) < 16 \<Longrightarrow> n \<in> {0, 1, 2, 3, 4, 5, 6, 7, 8, 9, 10, 11, 12, 13, 14, 15}"
  by (simp; arith)

lemma hex_value_digit: "n < 16 \<Longrightarrow> hex_value (hex_digits ! n) = Some n"
proof -
  assume "n < 16"
  then have "n \<in> {0, 1, 2, 3, 4, 5, 6, 7, 8, 9, 10, 11, 12, 13, 14, 15}"
    by (rule nat_less_16_cases)
  then show ?thesis
    by (elim insertE emptyE) (simp_all add: hex_value_def hex_digits_def js_def)
qed

lemma hex_digit_not_u: "n < 16 \<Longrightarrow> hex_digits ! n \<noteq> 0x75"
proof -
  assume "n < 16"
  then have "n \<in> {0, 1, 2, 3, 4, 5, 6, 7, 8, 9, 10, 11, 12, 13, 14, 15}"
    by (rule nat_less_16_cases)
  then show ?thesis
    by (elim insertE emptyE) (simp_all add: hex_digits_def js_def)
qed

lemma unat_byte_div: "unat (b :: byte) div 16 < 16" "unat (b :: byte) mod 16 < 16"
  using unsigned_less [of b, where 'a = nat] by simp_all

lemma hex2_percent:
  "hex2 (hex_digits ! (unat (b :: byte) div 16) # hex_digits ! (unat b mod 16) # rest) = Some (unat b)"
  by (simp add: hex2_def hex_value_digit unat_byte_div)

lemma unescape_percent_byte: "unescape (percent_byte b @ rest) = ucast b # unescape rest"
proof -
  have "unescape (percent_byte b @ rest) = of_nat (unat b) # unescape rest"
    by (simp add: percent_byte_def hex2_percent hex_digit_not_u unat_byte_div)
  then show ?thesis by (simp add: of_nat_unat)
qed

lemma unescape_percent_bytes:
  "unescape (concat (map percent_byte bs) @ rest) = map ucast bs @ unescape rest"
  by (induction bs) (simp_all add: unescape_percent_byte)

lemma unreserved_not_percent: "c \<in> set uri_unreserved \<Longrightarrow> c \<noteq> 0x25"
  by (auto simp: uri_unreserved_def js_def)

lemma unescape_plain: "c \<noteq> 0x25 \<Longrightarrow> unescape (c # rest) = c # unescape rest"
  by simp

lemma unescape_code_point:
  "unescape (encode_code_point cp @ rest) = map ucast (utf8 cp) @ unescape rest"
proof (cases "cp < 0x80 \<and> of_nat cp \<in> set uri_unreserved")
  case True
  then have "unescape (encode_code_point cp @ rest) = of_nat cp # unescape rest"
    using unreserved_not_percent [of "of_nat cp"] by (simp add: encode_code_point_def)
  moreover have "map ucast (utf8 cp) = [of_nat cp :: jschar]"
    using True by (simp add: utf8_def unsigned_of_nat take_bit_nat_eq_self)
  ultimately show ?thesis by simp
next
  case False
  then show ?thesis
    by (simp only: encode_code_point_def if_False unescape_percent_bytes)
qed

lemma encode_code_points_unescape:
  "encode_code_points cps = Inr e \<Longrightarrow>
   unescape e = map ucast (concat (map (\<lambda>cp. utf8 (case cp of None \<Rightarrow> 0xFFFD | Some n \<Rightarrow> n)) cps))"
proof (induction cps arbitrary: e rule: encode_code_points.induct)
  case 1
  then show ?case by simp
next
  case (2 rest)
  then show ?case by simp
next
  case (3 cp rest)
  from "3.prems" obtain r where r: "encode_code_points rest = Inr r" "e = encode_code_point cp @ r"
    by (auto split: sum.splits)
  from "3.IH" [OF r(1)] r(2) show ?case
    by (simp add: unescape_code_point)
qed

lemma encode_code_points_total:
  "list_all (\<lambda>cp. cp \<noteq> None) cps \<Longrightarrow> \<exists>e. encode_code_points cps = Inr e"
  by (induction cps rule: encode_code_points.induct) auto

lemma encode_code_points_ok:
  "encode_code_points cps = Inr e \<Longrightarrow> list_all (\<lambda>cp. cp \<noteq> None) cps"
  by (induction cps arbitrary: e rule: encode_code_points.induct) (auto split: sum.splits)

lemma encode_code_points_error:
  "encode_code_points cps = Inl err \<Longrightarrow> err = URIError \<and> \<not> list_all (\<lambda>cp. cp \<noteq> None) cps"
  by (induction cps rule: encode_code_points.induct) (auto split: sum.splits)

lemma unescape_encodeURIComponent:
  "encodeURIComponent text = Inr e \<Longrightarrow> unescape e = fromCharCode (TextEncoder_encode text)"
  by (simp add: encodeURIComponent_def TextEncoder_encode_def fromCharCode_def
        encode_code_points_unescape)

lemma unat_ucast_byte: "unat (ucast (b :: byte) :: jschar) = unat b"
proof -
  have "unat b < 2 ^ 8" using unsigned_less [of b, where 'a = nat] by simp
  then have "unat b < 2 ^ 16" by simp
  then show ?thesis by (simp add: unsigned_ucast_eq take_bit_nat_eq_self)
qed

lemma ucast_byte_le: "(ucast (b :: byte) :: jschar) \<le> 0xFF"
proof -
  have "unat (ucast b :: jschar) = unat b" by (rule unat_ucast_byte)
  then have "unat (ucast b :: jschar) \<le> unat (0xFF :: jschar)"
    using unsigned_less [of b, where 'a = nat] by simp
  then show ?thesis by (simp add: word_le_nat_alt)
qed

lemma btoa_bytes: "btoa (fromCharCode bs) = Inr (btoa_groups (map unat bs))"
proof -
  have "list_all (\<lambda>c. c \<le> 0xFF) (fromCharCode bs)"
    by (simp add: fromCharCode_def list_all_iff ucast_byte_le)
  moreover have "map unat (fromCharCode bs) = map unat bs"
    by (simp add: fromCharCode_def unat_ucast_byte)
  ultimately show ?thesis by (simp add: btoa_def)
qed

lemma length_btoa_groups: "length (btoa_groups xs) mod 4 = 0"
  by (induction xs rule: btoa_groups.induct) simp_all

lemma btoa_groups_empty: "btoa_groups xs = [] \<longleftrightarrow> xs = []"
  by (cases xs rule: btoa_groups.cases) simp_all

lemma utf8_nonempty: "utf8 cp \<noteq> []"
  by (simp add: utf8_def)

lemma code_points_empty: "code_points text = [] \<longleftrightarrow> text = []"
  by (cases "text" rule: code_points.cases) simp_all

lemma TextEncoder_encode_empty: "TextEncoder_encode text = [] \<longleftrightarrow> text = []"
  by (cases "text" rule: code_points.cases) (simp_all add: TextEncoder_encode_def utf8_nonempty)

lemma catch_block_well_formed:
  assumes "well_formed text"
  shows "catch_block text = Inr (btoa_groups (map unat (TextEncoder_encode text)))"
proof -
  obtain e where e: "encodeURIComponent text = Inr e"
    using assms encode_code_points_total [of "code_points text"]
    by (auto simp: well_formed_def encodeURIComponent_def)
  then show ?thesis
    by (simp add: catch_block_def unescape_encodeURIComponent btoa_bytes)
qed

lemma catch_block_ill_formed:
  assumes "\<not> well_formed text"
  shows "catch_block text = Inl URIError"
proof (cases "encodeURIComponent text")
  case (Inl err)
  then show ?thesis
    using encode_code_points_error [of "code_points text" err]
    by (simp add: catch_block_def encodeURIComponent_def)
next
  case (Inr e)
  then have "well_formed text"
    using encode_code_points_ok [of "code_points text" e]
    by (simp add: well_formed_def encodeURIComponent_def)
  with assms show ?thesis by simp
qed

lemma length_spec_encode64: "length (spec_encode64 bs) = 4 * length (groups3 bs)"
  by (induction bs rule: groups3.induct) (simp_all add: spec_encode64_def)

lemma chars_nth_in: "0 \<le> c \<Longrightarrow> c < 64 \<Longrightarrow> chars ! nat c \<in> set chars"
  by (simp add: length_chars)

lemma set_spec_encode64: "set (spec_encode64 bs) \<subseteq> set chars"
proof
  fix x
  assume "x \<in> set (spec_encode64 bs)"
  then obtain g c where "g \<in> set (groups3 bs)" "c \<in> set (sextets g)" "x = chars ! nat c"
    unfolding spec_encode64_def by auto
  then show "x \<in> set chars"
    using sextets_range [of c g] chars_nth_in [of c] by simp
qed

lemma try_block_ok:
  assumes "compress_step rt text = Some compressed" "length compressed \<le> max_arguments rt"
  shows "try_block rt text = Inr (spec_encode64 compressed)"
  using assms by (simp add: try_block_def encode64_groups encode_groups_bytes)

lemma try_block_Inr:
  assumes "try_block rt text = Inr token"
  shows "\<exists>compressed. compress_step rt text = Some compressed \<and>
           length compressed \<le> max_arguments rt \<and> token = spec_encode64 compressed"
  using assms
  by (auto simp: try_block_def encode64_groups encode_groups_bytes split: option.splits if_splits)

text \<open>
  Claim C1 fails on the code: the compression step calls the library's \<open>deflate\<close>, not
  its \<open>deflateRaw\<close>. On the empty text the buffer handed to \<open>encode64\<close> is the
  eight bytes 78 DA 03 00 00 00 00 01 (two header bytes, the deflate data 03 00, four checksum
  bytes) and the token is \<open>UDe300000040\<close>; the raw stream 03 00 of the same input, which
  the claim describes, would give \<open>0m00\<close>.
\<close>

theorem encodePlantUML_zlib_wrapped:
  "compress_step \<lparr>pako_lib = pako_on_empty, max_arguments = 65535\<rparr> [] =
     Some [0x78, 0xDA, 0x03, 0x00, 0x00, 0x00, 0x00, 0x01] \<and>
   deflateRaw pako_on_empty 9 (TextEncoder_encode []) = Some [0x03, 0x00] \<and>
   encodePlantUML \<lparr>pako_lib = pako_on_empty, max_arguments = 65535\<rparr> [] =
     Inr (js ''UDe300000040'') \<and>
   encode64 (fromCharCode [0x03, 0x00]) = js ''0m00''"
proof -
  have c: "compress_step \<lparr>pako_lib = pako_on_empty, max_arguments = 65535\<rparr> [] =
      Some [0x78, 0xDA, 0x03, 0x00, 0x00, 0x00, 0x00, 0x01]"
    by (simp add: compress_step_def pako_on_empty_def TextEncoder_encode_def)
  have r: "deflateRaw pako_on_empty 9 (TextEncoder_encode []) = Some [0x03, 0x00]"
    by (simp add: pako_on_empty_def TextEncoder_encode_def)
  have s: "spec_encode64 [0x78, 0xDA, 0x03, 0x00, 0x00, 0x00, 0x00, 0x01] = js ''UDe300000040''"
    by (simp add: spec_encode64_def chars_def js_def)
  have e: "encodePlantUML \<lparr>pako_lib = pako_on_empty, max_arguments = 65535\<rparr> [] =
      Inr (js ''UDe300000040'')"
    using try_block_ok [OF c] by (simp add: encodePlantUML_def s)
  have t: "encode64 (fromCharCode [0x03, 0x00]) = js ''0m00''"
    by (simp add: encode64_groups encode_groups_bytes spec_encode64_def chars_def js_def)
  from c r e t show ?thesis by (intro conjI)
qed

text \<open>
  C3 as stated fails: when the compression step throws, the text \<open>a\<close> is answered with
  the padded standard base64 \<open>YQ==\<close>, and \<open>=\<close> is not in the 64-character set.
\<close>

theorem encodePlantUML_alphabet_counterexample:
  "encodePlantUML \<lparr>pako_lib = failing_pako, max_arguments = 65535\<rparr> (js ''a'') = Inr (js ''YQ=='') \<and>
   \<not> set (js ''YQ=='') \<subseteq> set chars"
  by (simp add: encodePlantUML_def try_block_def compress_step_def failing_pako_def
        catch_block_def encodeURIComponent_def encode_code_point_def uri_unreserved_def
        btoa_def base64_chars_def is_surrogate_def js_def chars_def)

text \<open>
  Claim C3, amended. Whenever the compression step returns a buffer that the engine can
  spread, \<open>encodePlantUML\<close> returns a token, and every character of it belongs to the
  64-character set \<open>0-9A-Za-z-_\<close>.
\<close>

theorem encodePlantUML_alphabet:
  assumes "compress_step rt text = Some compressed" "length compressed \<le> max_arguments rt"
  shows "\<exists>token. encodePlantUML rt text = Inr token \<and> set token \<subseteq> set chars"
  using try_block_ok [OF assms] set_spec_encode64 [of compressed]
  by (simp add: encodePlantUML_def)

text \<open>C3 (amended) at the empty text.\<close>

theorem encodePlantUML_alphabet_witness:
  "compress_step \<lparr>pako_lib = pako_on_empty, max_arguments = 65535\<rparr> [] =
     Some [0x78, 0xDA, 0x03, 0x00, 0x00, 0x00, 0x00, 0x01] \<and>
   (\<exists>token. encodePlantUML \<lparr>pako_lib = pako_on_empty, max_arguments = 65535\<rparr> [] = Inr token \<and>
      set token \<subseteq> set chars)"
proof -
  have c: "compress_step \<lparr>pako_lib = pako_on_empty, max_arguments = 65535\<rparr> [] =
     Some [0x78, 0xDA, 0x03, 0x00, 0x00, 0x00, 0x00, 0x01]"
    by (simp add: compress_step_def pako_on_empty_def TextEncoder_encode_def)
  show ?thesis
    using encodePlantUML_alphabet [OF c] c by simp
qed

text \<open>
  Claim C4. The length of every string \<open>encodePlantUML\<close> returns is a multiple of 4, on
  the compressed path and on the fallback path; and a string is returned whenever the text is
  well-formed UTF-16 or the compression step succeeds.
\<close>

theorem encodePlantUML_length_multiple_of_4:
  "(encodePlantUML rt text = Inr token \<longrightarrow> length token mod 4 = 0) \<and>
   (well_formed text \<or>
    (\<exists>compressed. compress_step rt text = Some compressed \<and> length compressed \<le> max_arguments rt)
      \<longrightarrow> (\<exists>t. encodePlantUML rt text = Inr t))"
proof (cases "try_block rt text")
  case (Inr t)
  then obtain compressed where "t = spec_encode64 compressed"
    using try_block_Inr by blast
  then show ?thesis
    using Inr by (auto simp: encodePlantUML_def length_spec_encode64)
next
  case (Inl e)
  then have 1: "encodePlantUML rt text = catch_block text"
    by (simp add: encodePlantUML_def)
  have 2: "\<not> (\<exists>compressed. compress_step rt text = Some compressed \<and>
             length compressed \<le> max_arguments rt)"
    using Inl try_block_ok by fastforce
  show ?thesis
  proof (cases "well_formed text")
    case True
    then show ?thesis
      using 1 by (auto simp: catch_block_well_formed length_btoa_groups)
  next
    case False
    then show ?thesis
      using 1 2 by (simp add: catch_block_ill_formed)
  qed
qed

text \<open>C4 at the text \<open>ab\<close> with a failing compression step, and at the empty text.\<close>

theorem encodePlantUML_length_multiple_of_4_witness:
  "encodePlantUML \<lparr>pako_lib = failing_pako, max_arguments = 65535\<rparr> (js ''ab'') = Inr (js ''YWI='') \<and>
   length (js ''YWI='') mod 4 = 0 \<and> well_formed (js ''ab'') \<and>
   encodePlantUML \<lparr>pako_lib = pako_on_empty, max_arguments = 65535\<rparr> [] = Inr (js ''UDe300000040'') \<and>
   length (js ''UDe300000040'') mod 4 = 0"
proof -
  have e: "encodePlantUML \<lparr>pako_lib = failing_pako, max_arguments = 65535\<rparr> (js ''ab'') = Inr (js ''YWI='')"
    by (simp add: encodePlantUML_def try_block_def compress_step_def failing_pako_def
        catch_block_def encodeURIComponent_def encode_code_point_def uri_unreserved_def
        btoa_def base64_chars_def is_surrogate_def is_high_surrogate_def js_def hex2_def hex_value_def)
  have w: "well_formed (js ''ab'')"
    by (simp add: well_formed_def js_def is_surrogate_def is_high_surrogate_def)
  have c: "compress_step \<lparr>pako_lib = pako_on_empty, max_arguments = 65535\<rparr> [] =
      Some [0x78, 0xDA, 0x03, 0x00, 0x00, 0x00, 0x00, 0x01]"
    by (simp add: compress_step_def pako_on_empty_def TextEncoder_encode_def)
  have s: "spec_encode64 [0x78, 0xDA, 0x03, 0x00, 0x00, 0x00, 0x00, 0x01] = js ''UDe300000040''"
    by (simp add: spec_encode64_def chars_def js_def)
  have z: "encodePlantUML \<lparr>pako_lib = pako_on_empty, max_arguments = 65535\<rparr> [] = Inr (js ''UDe300000040'')"
    using try_block_ok [OF c] by (simp add: encodePlantUML_def s)
  have l1: "length (js ''YWI='') mod 4 = 0"
    using encodePlantUML_length_multiple_of_4
      [of "\<lparr>pako_lib = failing_pako, max_arguments = 65535\<rparr>" "js ''ab''" "js ''YWI=''"] e
    by blast
  have l2: "length (js ''UDe300000040'') mod 4 = 0"
    using encodePlantUML_length_multiple_of_4
      [of "\<lparr>pako_lib = pako_on_empty, max_arguments = 65535\<rparr>" "[]" "js ''UDe300000040''"] z
    by blast
  from e l1 w z l2 show ?thesis by (intro conjI)
qed

text \<open>
  C5 as stated fails twice when the compression step throws: the empty text is answered with
  the empty string, not a non-empty token, and a text holding a lone surrogate makes
  \<open>encodeURIComponent\<close> throw inside the \<open>catch\<close> block, so the exception escapes.
\<close>

theorem encodePlantUML_fallback_counterexample:
  "encodePlantUML \<lparr>pako_lib = failing_pako, max_arguments = 65535\<rparr> [] = Inr [] \<and>
   encodePlantUML \<lparr>pako_lib = failing_pako, max_arguments = 65535\<rparr> [0xD800] = Inl URIError"
  by (simp add: encodePlantUML_def try_block_def compress_step_def failing_pako_def
        catch_block_def encodeURIComponent_def btoa_def is_surrogate_def)

text \<open>
  Claim C5, amended. For every well-formed text (no lone surrogate) \<open>encodePlantUML\<close>
  does not throw; when the \<open>try\<close> block fails it returns the padded standard base64 of
  the UTF-8 bytes of the text, uncompressed, which is non-empty whenever the text is.
\<close>

theorem encodePlantUML_fallback:
  assumes "well_formed text"
  shows "(\<exists>token. encodePlantUML rt text = Inr token) \<and>
         (\<forall>e. try_block rt text = Inl e \<longrightarrow>
            encodePlantUML rt text = Inr (btoa_groups (map unat (TextEncoder_encode text))) \<and>
            (text \<noteq> [] \<longrightarrow> btoa_groups (map unat (TextEncoder_encode text)) \<noteq> []))"
proof (cases "try_block rt text")
  case (Inr token)
  then show ?thesis by (simp add: encodePlantUML_def)
next
  case (Inl e)
  with assms show ?thesis
    by (simp add: encodePlantUML_def catch_block_well_formed btoa_groups_empty
          TextEncoder_encode_empty)
qed

text \<open>C5 (amended) at the text \<open>a\<close>.\<close>

theorem encodePlantUML_fallback_witness:
  "well_formed (js ''a'') \<and>
   try_block \<lparr>pako_lib = failing_pako, max_arguments = 65535\<rparr> (js ''a'') = Inl LibraryError \<and>
   encodePlantUML \<lparr>pako_lib = failing_pako, max_arguments = 65535\<rparr> (js ''a'') = Inr (js ''YQ=='') \<and>
   js ''a'' \<noteq> []"
proof -
  have t: "try_block \<lparr>pako_lib = failing_pako, max_arguments = 65535\<rparr> (js ''a'') = Inl LibraryError"
    by (simp add: try_block_def compress_step_def failing_pako_def)
  have w: "well_formed (js ''a'')"
    by (simp add: well_formed_def js_def is_surrogate_def)
  have b: "btoa_groups (map unat (TextEncoder_encode (js ''a''))) = js ''YQ==''"
    by (simp add: TextEncoder_encode_def js_def is_surrogate_def utf8_def base64_chars_def)
  have n: "js ''a'' \<noteq> []"
    by (simp add: js_def)
  from encodePlantUML_fallback [OF w, of "\<lparr>pako_lib = failing_pako, max_arguments = 65535\<rparr>"] t
  have "encodePlantUML \<lparr>pako_lib = failing_pako, max_arguments = 65535\<rparr> (js ''a'') =
      Inr (btoa_groups (map unat (TextEncoder_encode (js ''a''))))"
    by blast
  then have e: "encodePlantUML \<lparr>pako_lib = failing_pako, max_arguments = 65535\<rparr> (js ''a'') = Inr (js ''YQ=='')"
    by (simp only: b)
  from w t e n show ?thesis by (intro conjI)
qed

section \<open>The AI configuration\<close>

lemma map_of_update_values:
  "map_of (map (\<lambda>(k', v'). if k' = k then (k', v) else (k', v')) obj) x =
     (if x = k then (if k \<in> fst ` set obj then Some v else None) else map_of obj x)"
  by (induction obj) (force split: prod.splits)+

lemma map_of_set_prop: "map_of (set_prop k v obj) x = (if x = k then Some v else map_of obj x)"
proof (cases "k \<in> fst ` set obj")
  case True
  then show ?thesis
    by (simp add: set_prop_def map_of_update_values)
next
  case False
  then have "map_of obj k = None" by (simp add: map_of_eq_None_iff)
  with False show ?thesis by (auto simp: set_prop_def map_add_def split: option.splits)
qed

lemma map_of_foldl_set_prop:
  "map_of (foldl (\<lambda>acc (k, x). set_prop k x acc) obj kvs) y =
     (case map_of (rev kvs) y of Some v \<Rightarrow> Some v | None \<Rightarrow> map_of obj y)"
proof (induction kvs arbitrary: obj)
  case Nil
  then show ?case by simp
next
  case (Cons kv kvs)
  obtain k x where kv: "kv = (k, x)" by (cases kv)
  show ?case
    by (simp add: kv Cons.IH map_of_set_prop map_add_def split: option.splits)
qed

lemma map_of_rev_distinct: "distinct (map fst kvs) \<Longrightarrow> map_of (rev kvs) = map_of kvs"
  using map_of_inject_set [of "rev kvs" kvs] by (simp add: rev_map [symmetric])

lemma get_prop_spread:
  "get_prop (spread obj v) k =
     (case map_of (rev (own_properties v)) k of Some x \<Rightarrow> Some x | None \<Rightarrow> get_prop obj k)"
  by (simp add: spread_def get_prop_def map_of_foldl_set_prop split: option.splits)

lemma get_prop_spread_defaults:
  "get_prop (spread [] (JObj defaultConfig)) k = get_prop defaultConfig k"
proof -
  have "distinct (map fst defaultConfig)"
    by (simp add: defaultConfig_def js_def)
  then have r: "map_of (rev defaultConfig) = map_of defaultConfig"
    by (rule map_of_rev_distinct)
  have "get_prop (spread [] (JObj defaultConfig)) k =
      (case map_of (rev defaultConfig) k of Some x \<Rightarrow> Some x | None \<Rightarrow> get_prop [] k)"
    by (simp only: get_prop_spread own_properties_def json.case)
  also have "\<dots> = get_prop defaultConfig k"
    by (simp add: r get_prop_def split: option.splits)
  finally show ?thesis .
qed

lemma loadConfig_merges_over_defaults:
  assumes "localStorage b config_key = Some saved" "saved \<noteq> []"
    and "JSON_parse b saved = Some (JObj stored)" "distinct (map fst stored)"
  shows "get_prop (loadConfig b config) k =
           (case get_prop stored k of Some v \<Rightarrow> Some v | None \<Rightarrow> get_prop defaultConfig k)"
    and "complete (JObj (loadConfig b config))"
proof -
  have l: "loadConfig b config = spread (spread [] (JObj defaultConfig)) (JObj stored)"
    using assms by (simp add: loadConfig_def)
  have r: "map_of (rev stored) = map_of stored"
    using assms(4) by (rule map_of_rev_distinct)
  have g: "get_prop (loadConfig b config) k =
           (case get_prop stored k of Some v \<Rightarrow> Some v | None \<Rightarrow> get_prop defaultConfig k)" for k
  proof -
    have "get_prop (loadConfig b config) k =
        (case map_of (rev stored) k of Some x \<Rightarrow> Some x
         | None \<Rightarrow> get_prop (spread [] (JObj defaultConfig)) k)"
      by (simp only: l get_prop_spread own_properties_def json.case)
    then show ?thesis
      by (simp add: r get_prop_spread_defaults get_prop_def [of stored] split: option.splits)
  qed
  then show "get_prop (loadConfig b config) k =
           (case get_prop stored k of Some v \<Rightarrow> Some v | None \<Rightarrow> get_prop defaultConfig k)" .
  have d: "k \<in> set (map fst defaultConfig) \<Longrightarrow> get_prop defaultConfig k \<noteq> None" for k
    by (simp add: get_prop_def map_of_eq_None_iff)
  show "complete (JObj (loadConfig b config))"
    unfolding complete_def field_def list_all_iff
    using g d by (auto split: option.splits)
qed

text \<open>
  Claim C6 fails on \<open>onMounted\<close> of the design studio. With the stored configuration
  \<open>{"provider":"openai"}\<close>, \<open>loadConfig\<close> of the configuration dialog yields a complete
  configuration, while \<open>onMounted\<close> assigns the parsed object as it is: \<open>model\<close> and the
  other fields are absent afterwards.
\<close>

theorem onMounted_aiConfig_drops_defaults:
  "onMounted_aiConfig stored_provider_only (JObj defaultConfig) =
     JObj [(js ''provider'', JStr (js ''openai''))] \<and>
   field (onMounted_aiConfig stored_provider_only (JObj defaultConfig)) (js ''model'') = None \<and>
   \<not> complete (onMounted_aiConfig stored_provider_only (JObj defaultConfig)) \<and>
   complete (JObj (loadConfig stored_provider_only defaultConfig))"
proof -
  have s: "localStorage stored_provider_only config_key = Some provider_only_text"
    by (simp add: stored_provider_only_def)
  have p: "JSON_parse stored_provider_only provider_only_text =
      Some (JObj [(js ''provider'', JStr (js ''openai''))])"
    by (simp add: stored_provider_only_def)
  have n: "provider_only_text \<noteq> []"
    by (simp add: provider_only_text_def js_def)
  have o: "onMounted_aiConfig stored_provider_only (JObj defaultConfig) =
      JObj [(js ''provider'', JStr (js ''openai''))]"
    by (simp add: onMounted_aiConfig_def s p n)
  have f: "field (JObj [(js ''provider'', JStr (js ''openai''))]) (js ''model'') = None"
    by (simp add: field_def get_prop_def js_def)
  have c: "\<not> complete (JObj [(js ''provider'', JStr (js ''openai''))])"
    by (simp add: complete_def defaultConfig_def field_def get_prop_def js_def)
  have l: "complete (JObj (loadConfig stored_provider_only defaultConfig))"
    by (rule loadConfig_merges_over_defaults(2) [OF s n p]) (simp add: js_def)
  show ?thesis using o f c l by simp
qed

section \<open>The remote template loader\<close>

lemma loadTemplates_invoke_bad_payload:
  assumes "templateUrl \<noteq> []" "trim templateUrl \<noteq> []"
    and "parse result = None \<or> (\<exists>v. parse result = Some v \<and> \<not> is_array v)"
  shows "\<exists>s'. loadTemplates_invoke parse templateUrl (Resolved result) s = (None, s') \<and>
           templates s' = [] \<and> error s' \<noteq> None \<and> \<not> isLoading s'"
proof -
  from assms(3) consider (unparsable) "parse result = None"
    | (other) v where "parse result = Some v" "\<not> is_array v"
    by auto
  then show ?thesis
  proof cases
    case unparsable
    then show ?thesis
      unfolding loadTemplates_invoke_def Let_def
      using assms(1,2) by simp
  next
    case other
    then show ?thesis
      unfolding loadTemplates_invoke_def Let_def
      using assms(1,2)
      by (cases v) (simp_all add: is_array_def)
  qed
qed

lemma loadTemplates_fetch_parse_failure:
  assumes "templateUrl \<noteq> []" "trim templateUrl \<noteq> []"
  shows "templates (loadTemplates_fetch templateUrl (Fetch_response True None) s) = [] \<and>
         error (loadTemplates_fetch templateUrl (Fetch_response True None) s) \<noteq> None"
  using assms by (simp add: loadTemplates_fetch_def Let_def)

text \<open>
  Claim C8 fails on the loader that fetches. A payload that parses to a value that is not an
  array (here the object \<open>{}\<close>) leaves the templates empty and throws nothing, but the
  error indicator stays \<open>null\<close>: the branch only logs a warning. The loader that goes
  through the host sets the indicator on both kinds of bad payload
  (\<open>loadTemplates_invoke_bad_payload\<close>), as the fetching loader does when the body does not
  parse (\<open>loadTemplates_fetch_parse_failure\<close>).
\<close>

theorem loadTemplates_fetch_not_array:
  "loadTemplates_fetch (js ''http://t'') (Fetch_response True (Some (JObj [])))
     \<lparr>templates = [], isLoading = False, error = None\<rparr> =
   \<lparr>templates = [], isLoading = False, error = None\<rparr>"
  by (simp add: loadTemplates_fetch_def Let_def trim_def js_def is_js_space_def)

section \<open>The template upload dialog\<close>

text \<open>
  Claim C9. \<open>handleUpload\<close> issues the upload request exactly when the trimmed title and
  the trimmed content are both non-empty. When they are not, no request (and no other effect)
  is issued, title, description, category and tags are unchanged, and the result is set to
  the failure message.
\<close>

theorem handleUpload_guard:
  "(\<not> (trim (title f) \<noteq> [] \<and> trim (content f) \<noteq> []) \<longrightarrow>
      snd (handleUpload env f) = [] \<and>
      title (fst (handleUpload env f)) = title f \<and>
      description (fst (handleUpload env f)) = description f \<and>
      category (fst (handleUpload env f)) = category f \<and>
      tags (fst (handleUpload env f)) = tags f \<and>
      uploadResult (fst (handleUpload env f)) = Some (False, msg_fill_title) \<and>
      fst (handleUpload env f) = f\<lparr>uploadResult := Some (False, msg_fill_title)\<rparr>) \<and>
   (list_ex is_upload_request (snd (handleUpload env f)) \<longleftrightarrow>
      trim (title f) \<noteq> [] \<and> trim (content f) \<noteq> [])"
proof (cases "isFormValid f")
  case False
  then show ?thesis
    by (auto simp: handleUpload_def isFormValid_def)
next
  case True
  then have v: "trim (title f) \<noteq> [] \<and> trim (content f) \<noteq> []"
    by (simp add: isFormValid_def)
  have "list_ex is_upload_request (snd (handleUpload env f))"
    using True
    by (simp add: handleUpload_def Let_def is_upload_request_def
          split: promise.splits sum.splits)
  with v show ?thesis by simp
qed

text \<open>C9 at a form whose title is two blanks, and at the same form with the title \<open>t\<close>.\<close>

theorem handleUpload_guard_witness:
  "trim (title blank_title_form) = [] \<and>
   handleUpload host_up blank_title_form =
     (blank_title_form\<lparr>uploadResult := Some (False, msg_fill_title)\<rparr>, []) \<and>
   trim (title (blank_title_form\<lparr>title := js ''t''\<rparr>)) \<noteq> [] \<and>
   list_ex is_upload_request (snd (handleUpload host_up (blank_title_form\<lparr>title := js ''t''\<rparr>)))"
proof -
  have t: "trim (title blank_title_form) = []"
    by (simp add: blank_title_form_def trim_def js_def is_js_space_def)
  have t': "trim (title (blank_title_form\<lparr>title := js ''t''\<rparr>)) = js ''t''"
    by (simp add: trim_def js_def is_js_space_def)
  have c: "trim (content (blank_title_form\<lparr>title := js ''t''\<rparr>)) \<noteq> []"
    by (simp add: blank_title_form_def trim_def js_def is_js_space_def)
  show ?thesis
    using handleUpload_guard [of blank_title_form host_up]
      handleUpload_guard [of "blank_title_form\<lparr>title := js ''t''\<rparr>" host_up] t t' c
    by (simp add: prod_eq_iff js_def)
qed

section \<open>The metrics dashboard\<close>

lemma insert_sorted_insort:
  fixes key :: "'a \<Rightarrow> int"
  assumes "\<forall>a \<in> set (x # ys). \<forall>b \<in> set (x # ys). cmp a b = key a - key b"
  shows "insert_sorted cmp x ys = insort_key key x ys"
  using assms
proof (induction ys)
  case Nil
  then show ?case by simp
next
  case (Cons y ys)
  then have c: "cmp x y \<le> 0 \<longleftrightarrow> key x \<le> key y"
    by simp
  have "insert_sorted cmp x ys = insort_key key x ys"
    using Cons.IH Cons.prems by simp
  with c show ?case by simp
qed

lemma insertion_sort_sort_key:
  fixes key :: "'a \<Rightarrow> int"
  assumes "\<forall>a \<in> set xs. \<forall>b \<in> set xs. cmp a b = key a - key b"
  shows "insertion_sort cmp xs = sort_key key xs"
  using assms
proof (induction xs)
  case Nil
  then show ?case by (simp add: insertion_sort_def)
next
  case (Cons x xs)
  then have ih: "insertion_sort cmp xs = sort_key key xs"
    by simp
  have "\<forall>a \<in> set (x # sort_key key xs). \<forall>b \<in> set (x # sort_key key xs). cmp a b = key a - key b"
    using Cons.prems by simp
  then have "insert_sorted cmp x (sort_key key xs) = insort_key key x (sort_key key xs)"
    by (rule insert_sorted_insort)
  then show ?case
    using ih by (simp add: insertion_sort_def)
qed

lemma ecma_sort_insertion_sort: "ecma_sort insertion_sort"
  unfolding ecma_sort_def using insertion_sort_sort_key by blast

lemma compare_dates_dated:
  assumes "dated getTime ms"
  shows "\<forall>a \<in> set ms. \<forall>b \<in> set ms.
           compare_dates getTime a b = time_of getTime a - time_of getTime b"
proof (intro ballI)
  fix a b
  assume "a \<in> set ms" "b \<in> set ms"
  with assms have "getTime (date a) \<noteq> None" "getTime (date b) \<noteq> None"
    by (simp_all add: dated_def list_all_iff)
  then obtain ta tb where "getTime (date a) = Some ta" "getTime (date b) = Some tb"
    by blast
  then show "compare_dates getTime a b = time_of getTime a - time_of getTime b"
    by (simp add: compare_dates_def time_of_def)
qed

lemma ecma_sort_dated:
  assumes "ecma_sort srt" "dated getTime ms"
  shows "srt (compare_dates getTime) ms = sort_key (time_of getTime) ms"
  using assms(1) compare_dates_dated [OF assms(2)]
  unfolding ecma_sort_def by blast

lemma chartData_result:
  assumes "metrics < length h"
  shows "chartData getTime srt h metrics =
           (h @ [srt (compare_dates getTime) (h ! metrics),
                 slice (-7) (srt (compare_dates getTime) (h ! metrics))],
            Suc (length h))"
  using assms
  by (simp add: chartData_def alloc_def sort_in_place_def nth_append)

lemma slice_last7: "slice (-7) xs = drop (length xs - 7) xs"
  by (simp add: slice_def Let_def max_def) (metis diff_is_0_eq drop0 nat_int nat_le_iff of_nat_diff nat_minus_as_int of_nat_numeral)

lemma january_dates_simps:
  "january_dates (js ''2024-01-05'') = Some 1704412800000"
  "january_dates (js ''2024-01-03'') = Some 1704240000000"
  "january_dates (js ''soon'') = None"
  by (simp_all add: january_dates_def js_def)

text \<open>
  Claim C10, amended. For every list of metric records the derived \<open>chartData\<close> has at
  most 7 entries, and computing it leaves the metrics list, and every other array of the
  store, as it was. When moreover every date parses (and the engine's sort is as ECMAScript
  fixes it), the entries are ordered ascending by date and are exactly the last (most recent)
  entries of the records sorted stably by date.
\<close>

theorem chartData_last_seven:
  assumes "metrics < length h" "chartData getTime srt h metrics = (h', r)"
  shows "length (h' ! r) \<le> 7 \<and>
         take (length h) h' = h \<and> h' ! metrics = h ! metrics \<and>
         (ecma_sort srt \<and> dated getTime (h ! metrics) \<longrightarrow>
            sorted (map (time_of getTime) (h' ! r)) \<and>
            h' ! r = drop (length (h ! metrics) - 7) (sort_key (time_of getTime) (h ! metrics)) \<and>
            (\<exists>older. sort_key (time_of getTime) (h ! metrics) = older @ h' ! r))"
proof -
  let ?out = "srt (compare_dates getTime) (h ! metrics)"
  have c: "h' = h @ [?out, drop (length ?out - 7) ?out]" "r = Suc (length h)"
    using assms chartData_result [OF assms(1), of getTime srt]
    by (simp_all add: slice_last7)
  have r: "h' ! r = drop (length ?out - 7) ?out"
    by (simp add: c nth_append)
  have n: "length (h' ! r) \<le> 7"
    by (simp add: r)
  have u: "take (length h) h' = h" "h' ! metrics = h ! metrics"
    using assms(1) by (simp_all add: c nth_append)
  have o: "sorted (map (time_of getTime) (h' ! r)) \<and>
      h' ! r = drop (length (h ! metrics) - 7) (sort_key (time_of getTime) (h ! metrics)) \<and>
      (\<exists>older. sort_key (time_of getTime) (h ! metrics) = older @ h' ! r)"
    if e: "ecma_sort srt" and d: "dated getTime (h ! metrics)"
  proof -
    let ?sorted = "sort_key (time_of getTime) (h ! metrics)"
    have s: "?out = ?sorted"
      using e d by (rule ecma_sort_dated)
    have r': "h' ! r = drop (length (h ! metrics) - 7) ?sorted"
      by (simp add: r s)
    have "sorted (map (time_of getTime) ?sorted)"
      by (rule sorted_sort_key)
    then have 1: "sorted (map (time_of getTime) (h' ! r))"
      by (simp add: r' drop_map [symmetric] sorted_wrt_drop del: drop_map)
    have 2: "\<exists>older. ?sorted = older @ h' ! r"
      by (rule exI [of _ "take (length (h ! metrics) - 7) ?sorted"]) (simp add: r')
    from 1 r' 2 show ?thesis by blast
  qed
  from n u o show ?thesis by blast
qed


text \<open>C10 (amended) at two records given in descending order.\<close>

theorem chartData_last_seven_witness:
  "(0::nat) < length [[metric_on (js ''2024-01-05''), metric_on (js ''2024-01-03'')]] \<and>
   chartData january_dates insertion_sort
       [[metric_on (js ''2024-01-05''), metric_on (js ''2024-01-03'')]] 0 =
     ([[metric_on (js ''2024-01-05''), metric_on (js ''2024-01-03'')],
       [metric_on (js ''2024-01-03''), metric_on (js ''2024-01-05'')],
       [metric_on (js ''2024-01-03''), metric_on (js ''2024-01-05'')]], 2) \<and>
   ecma_sort (insertion_sort :: (MetricData \<Rightarrow> MetricData \<Rightarrow> int) \<Rightarrow> MetricData list \<Rightarrow> MetricData list) \<and>
   dated january_dates ([[metric_on (js ''2024-01-05''), metric_on (js ''2024-01-03'')]] ! 0) \<and>
   sorted (map (time_of january_dates) [metric_on (js ''2024-01-03''), metric_on (js ''2024-01-05'')])"
proof -
  have l: "(0::nat) < length [[metric_on (js ''2024-01-05''), metric_on (js ''2024-01-03'')]]"
    by simp
  have d: "dated january_dates ([[metric_on (js ''2024-01-05''), metric_on (js ''2024-01-03'')]] ! 0)"
    by (simp add: dated_def january_dates_simps metric_on_def)
  have c: "chartData january_dates insertion_sort
       [[metric_on (js ''2024-01-05''), metric_on (js ''2024-01-03'')]] 0 =
     ([[metric_on (js ''2024-01-05''), metric_on (js ''2024-01-03'')],
       [metric_on (js ''2024-01-03''), metric_on (js ''2024-01-05'')],
       [metric_on (js ''2024-01-03''), metric_on (js ''2024-01-05'')]], 2)"
    by (simp add: chartData_result insertion_sort_def compare_dates_def slice_last7
        january_dates_simps metric_on_def)
  have e: "ecma_sort (insertion_sort :: (MetricData \<Rightarrow> MetricData \<Rightarrow> int) \<Rightarrow> MetricData list \<Rightarrow> MetricData list)"
    by (rule ecma_sort_insertion_sort)
  have n: "[[metric_on (js ''2024-01-05''), metric_on (js ''2024-01-03'')],
       [metric_on (js ''2024-01-03''), metric_on (js ''2024-01-05'')],
       [metric_on (js ''2024-01-03''), metric_on (js ''2024-01-05'')]] ! 2 =
     [metric_on (js ''2024-01-03''), metric_on (js ''2024-01-05'')]"
    by simp
  have "sorted (map (time_of january_dates)
     ([[metric_on (js ''2024-01-05''), metric_on (js ''2024-01-03'')],
       [metric_on (js ''2024-01-03''), metric_on (js ''2024-01-05'')],
       [metric_on (js ''2024-01-03''), metric_on (js ''2024-01-05'')]] ! 2))"
    using chartData_last_seven [OF l c] e d by blast
  then have s: "sorted (map (time_of january_dates)
      [metric_on (js ''2024-01-03''), metric_on (js ''2024-01-05'')])"
    by (simp only: n)
  from l c e d s show ?thesis by (intro conjI)
qed

text \<open>
  C10 as stated fails when a date does not parse: the comparator yields \<open>NaN\<close> against
  the record dated \<open>soon\<close>, nothing moves, and 5 January stays before 3 January.
\<close>

theorem chartData_unparsable_date_counterexample:
  "ecma_sort (insertion_sort :: (MetricData \<Rightarrow> MetricData \<Rightarrow> int) \<Rightarrow> MetricData list \<Rightarrow> MetricData list) \<and>
   fst (chartData january_dates insertion_sort
          [[metric_on (js ''2024-01-05''), metric_on (js ''soon''), metric_on (js ''2024-01-03'')]] 0) !
     snd (chartData january_dates insertion_sort
          [[metric_on (js ''2024-01-05''), metric_on (js ''soon''), metric_on (js ''2024-01-03'')]] 0) =
   [metric_on (js ''2024-01-05''), metric_on (js ''soon''), metric_on (js ''2024-01-03'')] \<and>
   january_dates (date (metric_on (js ''2024-01-05''))) = Some 1704412800000 \<and>
   january_dates (date (metric_on (js ''2024-01-03''))) = Some 1704240000000"
proof -
  have e: "ecma_sort (insertion_sort :: (MetricData \<Rightarrow> MetricData \<Rightarrow> int) \<Rightarrow> MetricData list \<Rightarrow> MetricData list)"
    by (rule ecma_sort_insertion_sort)
  have c: "fst (chartData january_dates insertion_sort
          [[metric_on (js ''2024-01-05''), metric_on (js ''soon''), metric_on (js ''2024-01-03'')]] 0) !
     snd (chartData january_dates insertion_sort
          [[metric_on (js ''2024-01-05''), metric_on (js ''soon''), metric_on (js ''2024-01-03'')]] 0) =
   [metric_on (js ''2024-01-05''), metric_on (js ''soon''), metric_on (js ''2024-01-03'')]"
    by (simp add: chartData_result insertion_sort_def compare_dates_def slice_last7
        january_dates_simps metric_on_def)
  have t: "january_dates (date (metric_on (js ''2024-01-05''))) = Some 1704412800000"
      "january_dates (date (metric_on (js ''2024-01-03''))) = Some 1704240000000"
    by (simp_all add: january_dates_simps metric_on_def)
  from e c t show ?thesis by (intro conjI)
qed

section \<open>Diagram generation\<close>

lemma join_lines_nonempty: "join_lines (l # m # ls) \<noteq> []"
  by simp

lemma demo_nonempty:
  "demo_login d \<noteq> []" "demo_order d \<noteq> []" "demo_class d \<noteq> []" "demo_flow d \<noteq> []"
  unfolding demo_login_def demo_order_def demo_class_def demo_flow_def
  by (rule join_lines_nonempty)+

lemma includes_str_prefix: "includes_str (d @ zs) d"
proof (cases "d @ zs")
  case Nil
  then show ?thesis by simp
next
  case (Cons a list)
  have "take (length d) (d @ zs) = d" by simp
  then have "take (length d) (a # list) = d" by (simp only: Cons)
  then have "includes_str (a # list) d" by simp
  then show ?thesis by (simp only: Cons)
qed

lemma includes_str_Cons: "includes_str ys d \<Longrightarrow> includes_str (x # ys) d"
  by simp

lemma includes_str_append: "includes_str ys d \<Longrightarrow> includes_str (xs @ ys) d"
  by (induction xs) (simp_all del: includes_str.simps add: includes_str_Cons)

lemma demo_includes_description:
  "includes_str (demo_login d) d" "includes_str (demo_order d) d"
  "includes_str (demo_class d) d" "includes_str (demo_flow d) d"
  unfolding demo_login_def demo_order_def demo_class_def demo_flow_def
  by (simp_all only: join_lines.simps append_assoc)
     ((rule includes_str_prefix | rule includes_str_append)+)+

lemma generateDemoPlantUML_cases:
  "generateDemoPlantUML lower d \<in> {demo_login d, demo_order d, demo_class d, demo_flow d}"
  by (simp add: generateDemoPlantUML_def Let_def)

lemma generateDemoPlantUML_nonempty: "generateDemoPlantUML lower d \<noteq> []"
  using generateDemoPlantUML_cases [of lower d] demo_nonempty [of d] by auto

lemma generateDemoPlantUML_includes: "includes_str (generateDemoPlantUML lower d) d"
  using generateDemoPlantUML_cases [of lower d] demo_includes_description [of d] by auto

lemma generateDemoPlantUML_keywords:
  "(includes_str (lower d) [0x767B, 0x5F55] \<or> includes_str (lower d) [0x8BA4, 0x8BC1] \<or>
    includes_str (lower d) [0x9274, 0x6743] \<longrightarrow>
      generateDemoPlantUML lower d = demo_login d) \<and>
   (\<not> (includes_str (lower d) [0x767B, 0x5F55] \<or> includes_str (lower d) [0x8BA4, 0x8BC1] \<or>
       includes_str (lower d) [0x9274, 0x6743]) \<and>
    (includes_str (lower d) [0x8BA2, 0x5355] \<or> includes_str (lower d) [0x4E0B, 0x5355] \<or>
     includes_str (lower d) [0x8D2D, 0x4E70]) \<longrightarrow>
      generateDemoPlantUML lower d = demo_order d) \<and>
   (\<not> (includes_str (lower d) [0x767B, 0x5F55] \<or> includes_str (lower d) [0x8BA4, 0x8BC1] \<or>
       includes_str (lower d) [0x9274, 0x6743]) \<and>
    \<not> (includes_str (lower d) [0x8BA2, 0x5355] \<or> includes_str (lower d) [0x4E0B, 0x5355] \<or>
       includes_str (lower d) [0x8D2D, 0x4E70]) \<and>
    (includes_str (lower d) [0x7C7B] \<or> includes_str (lower d) (js ''class'') \<or>
     includes_str (lower d) [0x5BF9, 0x8C61]) \<longrightarrow>
      generateDemoPlantUML lower d = demo_class d) \<and>
   (\<not> (includes_str (lower d) [0x767B, 0x5F55] \<or> includes_str (lower d) [0x8BA4, 0x8BC1] \<or>
       includes_str (lower d) [0x9274, 0x6743]) \<and>
    \<not> (includes_str (lower d) [0x8BA2, 0x5355] \<or> includes_str (lower d) [0x4E0B, 0x5355] \<or>
       includes_str (lower d) [0x8D2D, 0x4E70]) \<and>
    \<not> (includes_str (lower d) [0x7C7B] \<or> includes_str (lower d) (js ''class'') \<or>
       includes_str (lower d) [0x5BF9, 0x8C61]) \<longrightarrow>
      generateDemoPlantUML lower d = demo_flow d)"
  by (simp add: generateDemoPlantUML_def Let_def login_keywords_def order_keywords_def
        class_keywords_def del: includes_str.simps)

lemma demo_distinct:
  "demo_login d \<noteq> demo_order d" "demo_login d \<noteq> demo_class d" "demo_login d \<noteq> demo_flow d"
  "demo_order d \<noteq> demo_class d" "demo_order d \<noteq> demo_flow d" "demo_class d \<noteq> demo_flow d"
  unfolding demo_login_def demo_order_def demo_class_def demo_flow_def
  by (simp_all add: js_def)


lemma insertPlantUMLToEditor_Some:
  "editor s = Some md \<Longrightarrow>
   insertPlantUMLToEditor code s =
     s\<lparr>docContent := md @ heading_generated @ code, editor := Some (md @ heading_generated @ code)\<rparr>"
  by (simp add: insertPlantUMLToEditor_def Let_def)

lemma insertPlantUMLToEditor_None: "editor s = None \<Longrightarrow> insertPlantUMLToEditor code s = s"
  by (simp add: insertPlantUMLToEditor_def)

lemma trim_class: "trim (js ''class'') = js ''class''" "trim (js ''order'') = js ''order''"
  by (simp_all add: trim_def js_def is_js_space_def)

text \<open>
  Claim C7, amended. Whenever the host command rejects for a non-blank description,
  \<open>generatePlantUMLFromInput\<close> computes the demo diagram of the description as it stands
  when the rejection arrives, and, when the editor instance exists then, appends it under the
  heading to the document. The diagram is keyword-matched: the login diagram when the
  lower-cased description holds one of the three login words, else the order diagram when it
  holds one of the three order words, else the class diagram when it holds one of the three
  class words, else the default flow diagram; the four diagrams differ, each holds the
  description, none is empty. The older \<open>generatePlantUML\<close> appends one fixed canned
  diagram. Both clear the input and reset the generating flag.
\<close>

theorem generation_fallback:
  fixes s :: studio and during :: "studio \<Rightarrow> studio"
    and lower :: "jsstring \<Rightarrow> jsstring" and err :: rejection
  defines "s' \<equiv> during (s\<lparr>isGenerating := True\<rparr>)"
  defines "d \<equiv> aiInput s'"
  defines "t \<equiv> generatePlantUMLFromInput lower (Rejected err) during s"
  defines "u \<equiv> generatePlantUML (Rejected err) during s"
  assumes "trim (aiInput s) \<noteq> []"
  shows "(\<forall>md. editor s' = Some md \<longrightarrow>
            docContent t = md @ heading_generated @ generateDemoPlantUML lower d \<and>
            editor t = Some (md @ heading_generated @ generateDemoPlantUML lower d)) \<and>
         (includes_str (lower d) [0x767B, 0x5F55] \<or> includes_str (lower d) [0x8BA4, 0x8BC1] \<or>
          includes_str (lower d) [0x9274, 0x6743] \<longrightarrow>
            generateDemoPlantUML lower d = demo_login d) \<and>
         (\<not> (includes_str (lower d) [0x767B, 0x5F55] \<or> includes_str (lower d) [0x8BA4, 0x8BC1] \<or>
             includes_str (lower d) [0x9274, 0x6743]) \<and>
          (includes_str (lower d) [0x8BA2, 0x5355] \<or> includes_str (lower d) [0x4E0B, 0x5355] \<or>
           includes_str (lower d) [0x8D2D, 0x4E70]) \<longrightarrow>
            generateDemoPlantUML lower d = demo_order d) \<and>
         (\<not> (includes_str (lower d) [0x767B, 0x5F55] \<or> includes_str (lower d) [0x8BA4, 0x8BC1] \<or>
             includes_str (lower d) [0x9274, 0x6743]) \<and>
          \<not> (includes_str (lower d) [0x8BA2, 0x5355] \<or> includes_str (lower d) [0x4E0B, 0x5355] \<or>
             includes_str (lower d) [0x8D2D, 0x4E70]) \<and>
          (includes_str (lower d) [0x7C7B] \<or> includes_str (lower d) (js ''class'') \<or>
           includes_str (lower d) [0x5BF9, 0x8C61]) \<longrightarrow>
            generateDemoPlantUML lower d = demo_class d) \<and>
         (\<not> (includes_str (lower d) [0x767B, 0x5F55] \<or> includes_str (lower d) [0x8BA4, 0x8BC1] \<or>
             includes_str (lower d) [0x9274, 0x6743]) \<and>
          \<not> (includes_str (lower d) [0x8BA2, 0x5355] \<or> includes_str (lower d) [0x4E0B, 0x5355] \<or>
             includes_str (lower d) [0x8D2D, 0x4E70]) \<and>
          \<not> (includes_str (lower d) [0x7C7B] \<or> includes_str (lower d) (js ''class'') \<or>
             includes_str (lower d) [0x5BF9, 0x8C61]) \<longrightarrow>
            generateDemoPlantUML lower d = demo_flow d) \<and>
         distinct [demo_login d, demo_order d, demo_class d, demo_flow d] \<and>
         includes_str (generateDemoPlantUML lower d) d \<and>
         generateDemoPlantUML lower d \<noteq> [] \<and>
         aiInput t = [] \<and> \<not> showAiPanel t \<and> \<not> isGenerating t \<and>
         docContent u =
           (case editor s' of None \<Rightarrow> [] | Some md \<Rightarrow> md) @ plantumlBlock demoPlantUML \<and>
         aiInput u = [] \<and> \<not> isGenerating u"
proof -
  have a: "\<forall>md. editor s' = Some md \<longrightarrow>
      docContent t = md @ heading_generated @ generateDemoPlantUML lower d \<and>
      editor t = Some (md @ heading_generated @ generateDemoPlantUML lower d)"
    using assms(5)
    by (simp add: s'_def d_def t_def generatePlantUMLFromInput_def Let_def showToastMessage_def
          insertPlantUMLToEditor_Some)
  have b: "aiInput t = [] \<and> \<not> showAiPanel t \<and> \<not> isGenerating t"
    using assms(5)
    by (simp add: t_def generatePlantUMLFromInput_def Let_def showToastMessage_def)
  have c: "docContent u =
        (case editor s' of None \<Rightarrow> [] | Some md \<Rightarrow> md) @ plantumlBlock demoPlantUML \<and>
      aiInput u = [] \<and> \<not> isGenerating u"
    using assms(5)
    by (simp add: s'_def u_def generatePlantUML_def append_block_def Let_def)
  have k: "distinct [demo_login d, demo_order d, demo_class d, demo_flow d]"
    using demo_distinct [of d] by simp
  from a b c k generateDemoPlantUML_keywords [of lower d]
    generateDemoPlantUML_includes [of lower d] generateDemoPlantUML_nonempty [of lower d]
  show ?thesis by (intro conjI) blast+
qed


text \<open>C7 (amended) at the description \<open>order\<close>, replaced by \<open>class\<close> during the wait,
  with the document \<open># doc\<close>: the class diagram is appended.\<close>

theorem generation_fallback_witness:
  "trim (aiInput (studio_with (js ''order'') (Some (js ''# doc'')))) \<noteq> [] \<and>
   aiInput (retyped (js ''class'')
     ((studio_with (js ''order'') (Some (js ''# doc'')))\<lparr>isGenerating := True\<rparr>)) = js ''class'' \<and>
   includes_str (ascii_lower (js ''class'')) (js ''class'') \<and>
   docContent (generatePlantUMLFromInput ascii_lower (Rejected Reject_plain) (retyped (js ''class''))
       (studio_with (js ''order'') (Some (js ''# doc'')))) =
     js ''# doc'' @ heading_generated @ demo_class (js ''class'') \<and>
   docContent (generatePlantUML (Rejected Reject_plain) (retyped (js ''class''))
       (studio_with (js ''order'') (Some (js ''# doc'')))) =
     js ''# doc'' @ plantumlBlock demoPlantUML"
proof -
  let ?s = "studio_with (js ''order'') (Some (js ''# doc''))"
  let ?s' = "retyped (js ''class'') (?s\<lparr>isGenerating := True\<rparr>)"
  have t: "trim (aiInput ?s) \<noteq> []"
    by (simp add: studio_with_def trim_class) (simp add: js_def)
  have i: "aiInput ?s' = js ''class''"
    by (simp add: retyped_def)
  have e: "editor ?s' = Some (js ''# doc'')"
    by (simp add: retyped_def studio_with_def)
  have l: "ascii_lower (js ''class'') = js ''class''"
    by (simp add: ascii_lower_def js_def)
  have k1: "\<not> (includes_str (js ''class'') [0x767B, 0x5F55] \<or> includes_str (js ''class'') [0x8BA4, 0x8BC1] \<or>
             includes_str (js ''class'') [0x9274, 0x6743])"
    by (simp add: js_def)
  have k2: "\<not> (includes_str (js ''class'') [0x8BA2, 0x5355] \<or> includes_str (js ''class'') [0x4E0B, 0x5355] \<or>
             includes_str (js ''class'') [0x8D2D, 0x4E70])"
    by (simp add: js_def)
  have k3: "includes_str (js ''class'') (js ''class'')"
    using includes_str_prefix [of "js ''class''" "[]"] by simp
  note th = generation_fallback [where s = "?s" and during = "retyped (js ''class'')" and
      lower = ascii_lower and err = Reject_plain, OF t]
  have g: "generateDemoPlantUML ascii_lower (js ''class'') = demo_class (js ''class'')"
    using th k1 k2 k3 unfolding i l by blast
  have d1: "docContent (generatePlantUMLFromInput ascii_lower (Rejected Reject_plain)
       (retyped (js ''class'')) ?s) =
     js ''# doc'' @ heading_generated @ generateDemoPlantUML ascii_lower (js ''class'')"
    using th e unfolding i by blast
  have d2: "docContent (generatePlantUML (Rejected Reject_plain) (retyped (js ''class'')) ?s) =
      (case editor ?s' of None \<Rightarrow> [] | Some md \<Rightarrow> md) @ plantumlBlock demoPlantUML"
    using th by blast
  have d2': "docContent (generatePlantUML (Rejected Reject_plain) (retyped (js ''class'')) ?s) =
      js ''# doc'' @ plantumlBlock demoPlantUML"
    using d2 by (simp only: e option.case)
  have k3': "includes_str (ascii_lower (js ''class'')) (js ''class'')"
    using k3 by (simp only: l)
  from t i k3' d1 [unfolded g] d2' show ?thesis by (intro conjI)
qed

text \<open>
  C7 as stated fails. Without an editor instance \<open>generatePlantUMLFromInput\<close> inserts
  nothing: the document is as before. And the older \<open>generatePlantUML\<close> inserts the same
  diagram for the descriptions \<open>class\<close> and \<open>order\<close>: it is not matched to any keyword
  of the description.
\<close>

theorem generation_fallback_counterexample:
  "docContent (generatePlantUMLFromInput ascii_lower (Rejected Reject_plain) idle
       (studio_with (js ''class'') None)) = docContent (studio_with (js ''class'') None) \<and>
   editor (generatePlantUMLFromInput ascii_lower (Rejected Reject_plain) idle
       (studio_with (js ''class'') None)) = None \<and>
   docContent (generatePlantUML (Rejected Reject_plain) idle
       (studio_with (js ''class'') (Some (js ''# doc'')))) =
     docContent (generatePlantUML (Rejected Reject_plain) idle
       (studio_with (js ''order'') (Some (js ''# doc''))))"
proof -
  have t: "trim (aiInput (studio_with (js ''class'') ed)) \<noteq> []"
          "trim (aiInput (studio_with (js ''order'') ed)) \<noteq> []" for ed
    by (simp_all add: studio_with_def trim_class) (simp_all add: js_def)
  have a: "generatePlantUMLFromInput ascii_lower (Rejected Reject_plain) idle (studio_with (js ''class'') None) =
      (studio_with (js ''class'') None)
        \<lparr>aiInput := [], showAiPanel := False, toastMessage := msg_demo_generated, showToast := True,
         isGenerating := False\<rparr>"
    using t(1) [of None]
    by (simp add: generatePlantUMLFromInput_def Let_def showToastMessage_def idle_def
          insertPlantUMLToEditor_None studio_with_def)
  have b: "docContent (generatePlantUML (Rejected Reject_plain) idle (studio_with x (Some (js ''# doc'')))) =
      js ''# doc'' @ plantumlBlock demoPlantUML"
    if "trim (aiInput (studio_with x (Some (js ''# doc'')))) \<noteq> []" for x
    using that by (simp add: generatePlantUML_def append_block_def Let_def idle_def studio_with_def)
  show ?thesis
    using b [OF t(1)] b [OF t(2)] by (simp add: a; simp add: studio_with_def)
qed

end
